theory Spec2Isabelle
  imports Main "HOL-Library.Sublist" "HOL-Library.Product_Lexorder" "HOL-Library.List_Lexorder"
    "HOL-Library.Multiset"
begin

section \<open>Strings and request parameters\<close>

text \<open>
  A string is a list of characters with codes 0 to 255, read as code points.
  \<open>strip\<close> is Python's \<^verbatim>\<open>str.strip()\<close>: it removes the leading and the trailing run of
  characters for which \<^verbatim>\<open>str.isspace()\<close> holds. Among the codes 0 to 255 these are the
  tab, the line feed, the vertical tab, the form feed, the carriage return, the four
  separators 0x1C..0x1F, the blank, the next-line character 0x85 and the no-break
  space 0xA0.
\<close>

definition isspace :: "char \<Rightarrow> bool" where
  "isspace c =
     (let n = (of_char c :: nat)
      in (9 \<le> n \<and> n \<le> 13) \<or> (28 \<le> n \<and> n \<le> 32) \<or> n = 133 \<or> n = 160)"

definition strip :: "string \<Rightarrow> string" where
  "strip s = rev (dropWhile isspace (rev (dropWhile isspace s)))"

definition lower_char :: "char \<Rightarrow> char" where
  "lower_char c = (let n = (of_char c :: nat) in if 65 \<le> n \<and> n \<le> 90 then char_of (n + 32) else c)"

definition lower :: "string \<Rightarrow> string" where
  "lower s = map lower_char s"

text \<open>
  The lookup \<^verbatim>\<open>field__icontains=query\<close> of the object-relational mapper: the query is
  a contiguous substring of the field, compared without regard to letter case.
\<close>

definition icontains :: "string \<Rightarrow> string \<Rightarrow> bool" where
  "icontains field query = sublist (lower query) (lower field)"

text \<open>The decimal rendering of a primary key, as an f-string prints it.\<close>

definition digit_char :: "nat \<Rightarrow> char" where
  "digit_char d = char_of (48 + d)"

fun str_nat :: "nat \<Rightarrow> string" where
  "str_nat n = (if n < 10 then [digit_char n] else str_nat (n div 10) @ [digit_char (n mod 10)])"

declare str_nat.simps [simp del]

text \<open>
  Python's \<^verbatim>\<open>int(s)\<close>, as the mapper applies it to a primary-key lookup value: white
  space around, an optional sign, then decimal digits, where one underscore may stand
  between two digits. The value is \<open>None\<close> where \<^verbatim>\<open>int\<close> raises \<^verbatim>\<open>ValueError\<close>.
\<close>

definition isdigit :: "char \<Rightarrow> bool" where
  "isdigit c = (let n = (of_char c :: nat) in 48 \<le> n \<and> n \<le> 57)"

definition digits_value :: "string \<Rightarrow> nat" where
  "digits_value s = foldl (\<lambda>acc c. 10 * acc + (of_char c - 48)) 0 s"

fun digit_groups :: "string \<Rightarrow> bool" where
  "digit_groups [] = False"
| "digit_groups [c] = isdigit c"
| "digit_groups (c # e # cs) =
     (isdigit c \<and> (if e = CHR ''_'' then digit_groups cs else digit_groups (e # cs)))"

definition py_int :: "string \<Rightarrow> int option" where
  "py_int s =
     (case strip s of
        [] \<Rightarrow> None
      | c # cs \<Rightarrow>
          if c = CHR ''-'' then
            (if digit_groups cs then Some (- int (digits_value (filter isdigit cs))) else None)
          else if c = CHR ''+'' then
            (if digit_groups cs then Some (int (digits_value (filter isdigit cs))) else None)
          else if digit_groups (c # cs) then Some (int (digits_value (filter isdigit (c # cs))))
          else None)"

record request =
  http_method :: string
  POST :: "string \<rightharpoonup> string"
  GET :: "string \<rightharpoonup> string"
  FILES :: "string \<rightharpoonup> string"
  user :: "nat option"

text \<open>\<^verbatim>\<open>QueryDict.get(key, default)\<close>.\<close>

definition get_param :: "(string \<rightharpoonup> string) \<Rightarrow> string \<Rightarrow> string \<Rightarrow> string" where
  "get_param d key dflt = (case d key of None \<Rightarrow> dflt | Some v \<Rightarrow> v)"

section \<open>Data model\<close>

text \<open>
  One record per model class of \<^verbatim>\<open>models.py\<close>, one list per table. A foreign key is
  the primary key of the row it refers to; a nullable column is an \<open>option\<close>. Instants
  are natural numbers; \<open>'d\<close> is the type of \<^verbatim>\<open>decimal.Decimal\<close> values. The columns that
  no view below reads or writes (the purchase date and the image of an asset, the
  creation times, the plan of a task) and the model \<^verbatim>\<open>MaintenancePlan\<close> are left out.
\<close>

type_synonym timestamp = nat

record Site =
  site_id :: nat
  site_name :: string
  site_address :: string
  site_notes :: string

record Asset =
  asset_id :: nat
  asset_site :: nat
  asset_name :: string
  asset_type :: string
  asset_serial :: string
  asset_vendor :: string
  asset_status :: string
  qr_token :: nat

text \<open>
  The report document is kept as the sequence of texts handed to the drawing
  primitives; coordinates, fonts and page breaks are left out.
\<close>

datatype report_entry =
    Heading string
  | Section_title string
  | Label_value string string
  | Wrapped string
  | Blank_line

type_synonym pdf = "report_entry list"

record MaintenanceTask =
  task_id :: nat
  task_site :: nat
  task_title :: string
  scheduled_for :: timestamp
  task_status :: string
  task_notes :: string
  report_pdf :: "(string \<times> pdf) option"
  completed_at :: "timestamp option"
  created_by :: "nat option"

record ChecklistTemplate =
  template_id :: nat
  template_name :: string
  template_site :: "nat option"

record ChecklistTemplateItem =
  ti_id :: nat
  ti_template :: nat
  ti_order :: nat
  ti_label :: string
  ti_item_type :: string
  ti_required :: bool
  ti_unit :: string

record 'd TaskChecklistItem =
  item_id :: nat
  item_task :: nat
  item_asset :: "nat option"
  template_item :: "nat option"
  label_snapshot :: string
  item_type :: string
  required :: bool
  unit :: string
  value_text :: string
  value_number :: "'d option"
  value_bool :: "bool option"
  attachment :: "string option"

record 'd db =
  sites :: "Site list"
  assets :: "Asset list"
  tasks :: "MaintenanceTask list"
  templates :: "ChecklistTemplate list"
  template_items :: "ChecklistTemplateItem list"
  checklist_items :: "'d TaskChecklistItem list"

definition STATUS_CHOICES :: "(string \<times> string) list" where
  "STATUS_CHOICES =
     [(''scheduled'', ''Programmato''), (''in_progress'', ''In corso''),
      (''done'', ''Chiuso''), (''cancelled'', ''Annullato'')]"

definition TYPE_CHOICES :: "(string \<times> string) list" where
  "TYPE_CHOICES =
     [(''yesno'', ''SI/NO''), (''number'', ''Numero''), (''text'', ''Testo''), (''photo'', ''Foto'')]"

definition valid_status :: "string set" where
  "valid_status = set (map fst STATUS_CHOICES)"

definition valid_types :: "string set" where
  "valid_types = set (map fst TYPE_CHOICES)"

datatype error = Http404 | ValueError | DoesNotExist | DecimalFieldError | IntegrityError

datatype response = Redirect_task_detail nat | Redirect_login | Rendered | Assets_page "Asset list"

text \<open>
  A view returns the database as it has left it together with either the response or
  the exception that ended the request: writes made before an exception stay, since
  every statement commits on its own.
\<close>

type_synonym 'd outcome = "'d db \<times> (error + response)"

text \<open>\<^verbatim>\<open>get_object_or_404(Model, id=...)\<close> on a table.\<close>

definition get_object_or_404 :: "('r \<Rightarrow> nat) \<Rightarrow> 'r list \<Rightarrow> nat \<Rightarrow> error + 'r" where
  "get_object_or_404 pk rows k =
     (case filter (\<lambda>r. pk r = k) rows of [] \<Rightarrow> Inl Http404 | r # _ \<Rightarrow> Inr r)"

text \<open>
  The same lookup with the key as it arrives in a form field: a value that
  \<^verbatim>\<open>int\<close> rejects raises \<^verbatim>\<open>ValueError\<close>, a number that is no key gives the 404.
\<close>

definition get_object_or_404_str :: "('r \<Rightarrow> nat) \<Rightarrow> 'r list \<Rightarrow> string \<Rightarrow> error + 'r" where
  "get_object_or_404_str pk rows s =
     (case py_int s of
        None \<Rightarrow> Inl ValueError
      | Some i \<Rightarrow> (case filter (\<lambda>r. int (pk r) = i) rows of [] \<Rightarrow> Inl Http404 | r # _ \<Rightarrow> Inr r))"

section \<open>Task status\<close>

text \<open>
  \<^verbatim>\<open>task.save(update_fields=[...])\<close>: the stored row takes the listed columns from the
  object in memory and keeps its other columns.
\<close>

fun copy_field :: "string \<Rightarrow> MaintenanceTask \<Rightarrow> MaintenanceTask \<Rightarrow> MaintenanceTask" where
  "copy_field f obj row =
     (if f = ''status'' then row\<lparr>task_status := task_status obj\<rparr>
      else if f = ''completed_at'' then row\<lparr>completed_at := completed_at obj\<rparr>
      else if f = ''report_pdf'' then row\<lparr>report_pdf := report_pdf obj\<rparr>
      else row)"

definition save_task :: "string list \<Rightarrow> MaintenanceTask \<Rightarrow> MaintenanceTask list \<Rightarrow> MaintenanceTask list" where
  "save_task update_fields obj rows =
     map (\<lambda>row. if task_id row = task_id obj then fold (\<lambda>f. copy_field f obj) update_fields row else row) rows"

text \<open>The branch \<^verbatim>\<open>action == "update_task"\<close> of \<^verbatim>\<open>task_detail\<close>.\<close>

definition update_task :: "timestamp \<Rightarrow> request \<Rightarrow> MaintenanceTask \<Rightarrow> 'd db \<Rightarrow> 'd outcome" where
  "update_task now req task d =
     (let status = strip (get_param (POST req) ''status'' '''') in
      if status \<in> valid_status then
        (let was_done = (task_status task = ''done'');
             task1 = task\<lparr>task_status := status\<rparr>;
             stamp = (status = ''done'' \<and> (\<not> was_done \<or> completed_at task1 = None));
             task2 = (if stamp then task1\<lparr>completed_at := Some now\<rparr> else task1);
             update_fields = (if stamp then [''status'', ''completed_at''] else [''status''])
         in (d\<lparr>tasks := save_task update_fields task2 (tasks d)\<rparr>, Inr (Redirect_task_detail (task_id task))))
      else (d, Inr (Redirect_task_detail (task_id task))))"

section \<open>Library functions\<close>

text \<open>
  The functions of the standard library and of the framework that the views call and
  whose results depend on more than the model holds:
  \<^item> \<open>Decimal\<close>: the constructor \<^verbatim>\<open>decimal.Decimal(str)\<close>, \<open>None\<close> where it raises
    \<^verbatim>\<open>InvalidOperation\<close>;
  \<^item> \<open>storable\<close>: whether the column \<^verbatim>\<open>DecimalField(max_digits=12, decimal_places=3)\<close>
    accepts the value when the row is saved (a value with too many digits, or one that
    is not finite, makes \<^verbatim>\<open>save()\<close> raise);
  \<^item> \<open>str_decimal\<close>: \<^verbatim>\<open>str\<close> of a decimal;
  \<^item> \<open>strftime\<close>: the local time of an instant printed as \<^verbatim>\<open>%d/%m/%Y %H:%M\<close>;
  \<^item> \<open>parse_datetime\<close>: Django's parser, \<open>Inr None\<close> for an input that is not
    well formed and \<open>Inl ValueError\<close> for a well-formed input that is no date;
  \<^item> \<open>fromisoformat\<close>: \<^verbatim>\<open>datetime.fromisoformat\<close>, \<open>None\<close> where it raises.
\<close>

record 'd lib =
  Decimal :: "string \<Rightarrow> 'd option"
  storable :: "'d \<Rightarrow> bool"
  str_decimal :: "'d \<Rightarrow> string"
  strftime :: "timestamp \<Rightarrow> string"
  parse_datetime :: "string \<Rightarrow> error + timestamp option"
  fromisoformat :: "string \<Rightarrow> timestamp option"

section \<open>Checklist instantiation\<close>

text \<open>
  A new row takes the key after the largest one of its table. An object that has not
  been saved yet carries the key 0, which no row has.
\<close>

definition fresh_id :: "('r \<Rightarrow> nat) \<Rightarrow> 'r list \<Rightarrow> nat" where
  "fresh_id pk rows = Suc (fold max (map pk rows) 0)"

text \<open>
  \<^verbatim>\<open>template.items.all()\<close>: the items of the template in the order of the model's
  \<^verbatim>\<open>Meta.ordering = ["order", "id"]\<close>.
\<close>

definition template_items_all :: "'d db \<Rightarrow> ChecklistTemplate \<Rightarrow> ChecklistTemplateItem list" where
  "template_items_all d template =
     sort_key (\<lambda>i. (ti_order i, ti_id i))
       (filter (\<lambda>i. ti_template i = template_id template) (template_items d))"

text \<open>The constructor call of \<^verbatim>\<open>_create_checklist_from_template\<close>; the value columns take their defaults.\<close>

definition snapshot :: "MaintenanceTask \<Rightarrow> Asset option \<Rightarrow> ChecklistTemplateItem \<Rightarrow> 'd TaskChecklistItem" where
  "snapshot task asset item =
     \<lparr>item_id = 0, item_task = task_id task, item_asset = map_option asset_id asset,
      template_item = Some (ti_id item), label_snapshot = ti_label item,
      item_type = ti_item_type item, required = ti_required item, unit = ti_unit item,
      value_text = '''', value_number = None, value_bool = None, attachment = None\<rparr>"

definition bulk_create :: "'d TaskChecklistItem list \<Rightarrow> 'd TaskChecklistItem list \<Rightarrow> 'd TaskChecklistItem list" where
  "bulk_create items rows =
     rows @ map2 (\<lambda>k it. it\<lparr>item_id := k\<rparr>) [fresh_id item_id rows ..< fresh_id item_id rows + length items] items"

definition create_checklist_from_template ::
  "MaintenanceTask \<Rightarrow> ChecklistTemplate \<Rightarrow> Asset option \<Rightarrow> 'd db \<Rightarrow> 'd db" where
  "create_checklist_from_template task template asset d =
     (let items = map (snapshot task asset) (template_items_all d template) in
      if items \<noteq> [] then d\<lparr>checklist_items := bulk_create items (checklist_items d)\<rparr> else d)"

text \<open>
  \<^verbatim>\<open>Asset.objects.filter(id=asset_id, site=...).first() if asset_id else None\<close>: the
  lookup raises \<^verbatim>\<open>ValueError\<close> for a key that is no number.
\<close>

definition asset_of_site :: "'d db \<Rightarrow> string \<Rightarrow> nat \<Rightarrow> error + Asset option" where
  "asset_of_site d asset_id_str site =
     (if asset_id_str = [] then Inr None
      else case py_int asset_id_str of
             None \<Rightarrow> Inl ValueError
           | Some i \<Rightarrow>
               (case filter (\<lambda>a. int (asset_id a) = i \<and> asset_site a = site) (assets d) of
                  [] \<Rightarrow> Inr None
                | a # _ \<Rightarrow> Inr (Some a)))"

text \<open>The branch \<^verbatim>\<open>action == "generate_checklist"\<close> of \<^verbatim>\<open>task_detail\<close>.\<close>

definition generate_checklist :: "request \<Rightarrow> MaintenanceTask \<Rightarrow> 'd db \<Rightarrow> 'd outcome" where
  "generate_checklist req task d =
     (let template_id_str = strip (get_param (POST req) ''template_id'' '''') in
      if template_id_str \<noteq> [] then
        (case get_object_or_404_str template_id (templates d) template_id_str of
           Inl e \<Rightarrow> (d, Inl e)
         | Inr template \<Rightarrow>
             (case asset_of_site d (strip (get_param (POST req) ''asset_id'' '''')) (task_site task) of
                Inl e \<Rightarrow> (d, Inl e)
              | Inr asset \<Rightarrow>
                  (create_checklist_from_template task template asset d,
                   Inr (Redirect_task_detail (task_id task)))))
      else (d, Inr (Redirect_task_detail (task_id task))))"

text \<open>The branch \<^verbatim>\<open>action == "add_checklist_item"\<close> of \<^verbatim>\<open>task_detail\<close>.\<close>

definition add_checklist_item :: "request \<Rightarrow> MaintenanceTask \<Rightarrow> 'd db \<Rightarrow> 'd outcome" where
  "add_checklist_item req task d =
     (let label = strip (get_param (POST req) ''label'' '''') in
      if label \<noteq> [] then
        (let item_type0 = strip (get_param (POST req) ''item_type'' ''yesno'');
             item_type1 = (if item_type0 \<notin> valid_types then ''yesno'' else item_type0);
             required1 = (POST req ''required'' = Some ''on'');
             unit1 = strip (get_param (POST req) ''unit'' '''')
         in case asset_of_site d (strip (get_param (POST req) ''asset_id'' '''')) (task_site task) of
              Inl e \<Rightarrow> (d, Inl e)
            | Inr asset \<Rightarrow>
                (d\<lparr>checklist_items := checklist_items d @
                     [\<lparr>item_id = fresh_id item_id (checklist_items d), item_task = task_id task,
                       item_asset = map_option asset_id asset, template_item = None,
                       label_snapshot = label, item_type = item_type1, required = required1,
                       unit = unit1, value_text = '''', value_number = None, value_bool = None,
                       attachment = None\<rparr>]\<rparr>,
                 Inr (Redirect_task_detail (task_id task))))
      else (d, Inr (Redirect_task_detail (task_id task))))"

section \<open>Answer capture\<close>

text \<open>
  The body of the loop of \<^verbatim>\<open>save_answers\<close> up to \<^verbatim>\<open>item.save()\<close>: the object in memory
  after the assignments.
\<close>

definition capture_answer :: "'d lib \<Rightarrow> request \<Rightarrow> 'd TaskChecklistItem \<Rightarrow> 'd TaskChecklistItem" where
  "capture_answer L req item =
     (let key = ''item_'' @ str_nat (item_id item) in
      if item_type item = ''yesno'' then
        (let v = get_param (POST req) (key @ ''_yesno'') '''' in
         if v = ''yes'' then item\<lparr>value_bool := Some True\<rparr>
         else if v = ''no'' then item\<lparr>value_bool := Some False\<rparr>
         else item\<lparr>value_bool := None\<rparr>)
      else if item_type item = ''number'' then
        (let v = strip (get_param (POST req) (key @ ''_number'') '''') in
         if v \<noteq> [] then
           (case Decimal L v of
              Some n \<Rightarrow> item\<lparr>value_number := Some n\<rparr>
            | None \<Rightarrow> item\<lparr>value_number := None\<rparr>)
         else item\<lparr>value_number := None\<rparr>)
      else if item_type item = ''text'' then
        item\<lparr>value_text := strip (get_param (POST req) (key @ ''_text'') '''')\<rparr>
      else if item_type item = ''photo'' then
        (case FILES req (key @ ''_photo'') of
           Some f \<Rightarrow> item\<lparr>attachment := Some f\<rparr>
         | None \<Rightarrow> item)
      else item)"

text \<open>The \<^verbatim>\<open>UPDATE\<close> that a save issues: the row with the key of the object takes its columns.\<close>

definition write_row :: "'d TaskChecklistItem \<Rightarrow> 'd TaskChecklistItem list \<Rightarrow> 'd TaskChecklistItem list" where
  "write_row item rows = map (\<lambda>r. if item_id r = item_id item then item else r) rows"

text \<open>
  \<^verbatim>\<open>item.save()\<close>: every column of the row is written, unless the decimal column
  refuses the number.
\<close>

definition save_item :: "'d lib \<Rightarrow> 'd TaskChecklistItem \<Rightarrow> 'd TaskChecklistItem list \<Rightarrow> error + 'd TaskChecklistItem list" where
  "save_item L item rows =
     (case value_number item of
        Some n \<Rightarrow> if storable L n then Inr (write_row item rows) else Inl DecimalFieldError
      | None \<Rightarrow> Inr (write_row item rows))"

text \<open>
  The loop over the items of the task. It gives the table as the loop has left it and
  the list of objects in memory, or the exception of the save that failed.
\<close>

fun answers_loop ::
  "'d lib \<Rightarrow> request \<Rightarrow> 'd TaskChecklistItem list \<Rightarrow> 'd TaskChecklistItem list \<Rightarrow>
   'd TaskChecklistItem list \<times> (error + 'd TaskChecklistItem list)" where
  "answers_loop L req [] rows = (rows, Inr [])"
| "answers_loop L req (item # items) rows =
     (let item1 = capture_answer L req item in
      case save_item L item1 rows of
        Inl e \<Rightarrow> (rows, Inl e)
      | Inr rows1 \<Rightarrow>
          (case answers_loop L req items rows1 of
             (rows2, Inl e) \<Rightarrow> (rows2, Inl e)
           | (rows2, Inr items1) \<Rightarrow> (rows2, Inr (item1 # items1))))"

section \<open>Task report\<close>

definition format_datetime_for_pdf :: "'d lib \<Rightarrow> timestamp option \<Rightarrow> string" where
  "format_datetime_for_pdf L v = (case v of None \<Rightarrow> ''-'' | Some t \<Rightarrow> strftime L t)"

definition format_task_item_answer :: "'d lib \<Rightarrow> 'd TaskChecklistItem \<Rightarrow> string" where
  "format_task_item_answer L item =
     (if item_type item = ''yesno'' then
        (if value_bool item = Some True then ''SI''
         else if value_bool item = Some False then ''NO''
         else ''-'')
      else if item_type item = ''number'' then
        (case value_number item of
           None \<Rightarrow> ''-''
         | Some n \<Rightarrow> str_decimal L n @ (if unit item \<noteq> [] then '' '' @ unit item else []))
      else if item_type item = ''photo'' then
        (case attachment item of
           None \<Rightarrow> ''-''
         | Some f \<Rightarrow> if f \<noteq> [] then ''Foto allegata'' else ''-'')
      else (if value_text item \<noteq> [] then value_text item else ''-''))"

definition get_status_display :: "MaintenanceTask \<Rightarrow> string" where
  "get_status_display task =
     (case map_of STATUS_CHOICES (task_status task) of None \<Rightarrow> task_status task | Some l \<Rightarrow> l)"

text \<open>\<^verbatim>\<open>str.splitlines()\<close>; the first argument is the line read so far, reversed.\<close>

definition is_linebreak :: "char \<Rightarrow> bool" where
  "is_linebreak c =
     (let n = (of_char c :: nat) in (10 \<le> n \<and> n \<le> 13) \<or> (28 \<le> n \<and> n \<le> 30) \<or> n = 133)"

fun splitlines_from :: "string \<Rightarrow> string \<Rightarrow> string list" where
  "splitlines_from cur [] = (if cur = [] then [] else [rev cur])"
| "splitlines_from cur [c] = (if is_linebreak c then [rev cur] else [rev (c # cur)])"
| "splitlines_from cur (c # e # cs) =
     (if c = CHR 0x0D \<and> e = CHR 0x0A then rev cur # splitlines_from [] cs
      else if is_linebreak c then rev cur # splitlines_from [] (e # cs)
      else splitlines_from (c # cur) (e # cs))"

definition splitlines :: "string \<Rightarrow> string list" where
  "splitlines s = splitlines_from [] s"

definition draw_label_value :: "string \<Rightarrow> string \<Rightarrow> report_entry" where
  "draw_label_value label v = Label_value (label @ '':'') (if v = [] then ''-'' else v)"

text \<open>The loop over \<^verbatim>\<open>enumerate(items, start=1)\<close>; \<^verbatim>\<open>item.asset\<close> fetches the asset row.\<close>

fun checklist_entries :: "'d lib \<Rightarrow> 'd db \<Rightarrow> nat \<Rightarrow> 'd TaskChecklistItem list \<Rightarrow> error + report_entry list" where
  "checklist_entries L d idx [] = Inr []"
| "checklist_entries L d idx (item # items) =
     (let label = Wrapped (str_nat idx @ ''. '' @ label_snapshot item);
          answer = Wrapped (''Risposta: '' @ format_task_item_answer L item)
      in case (case item_asset item of
                 None \<Rightarrow> Inr []
               | Some k \<Rightarrow>
                   (case filter (\<lambda>a. asset_id a = k) (assets d) of
                      [] \<Rightarrow> Inl DoesNotExist
                    | a # _ \<Rightarrow> Inr [Wrapped (''Asset: '' @ asset_name a)])) of
           Inl e \<Rightarrow> Inl e
         | Inr asset_line \<Rightarrow>
             (case checklist_entries L d (Suc idx) items of
                Inl e \<Rightarrow> Inl e
              | Inr rest \<Rightarrow> Inr ([label, answer] @ asset_line @ rest)))"

definition build_task_report_pdf ::
  "'d lib \<Rightarrow> timestamp \<Rightarrow> 'd db \<Rightarrow> MaintenanceTask \<Rightarrow> 'd TaskChecklistItem list \<Rightarrow> error + pdf" where
  "build_task_report_pdf L now d task items =
     (case filter (\<lambda>s. site_id s = task_site task) (sites d) of
        [] \<Rightarrow> Inl DoesNotExist
      | site # _ \<Rightarrow>
          (let head = [Heading ''Report intervento'', Section_title ''Dati intervento'',
                       draw_label_value ''Sede'' (site_name site),
                       draw_label_value ''Titolo'' (task_title task),
                       draw_label_value ''Stato'' (get_status_display task),
                       draw_label_value ''Pianificato'' (format_datetime_for_pdf L (Some (scheduled_for task))),
                       draw_label_value ''Data esecuzione'' (format_datetime_for_pdf L (completed_at task)),
                       draw_label_value ''Report generato'' (format_datetime_for_pdf L (Some now))];
               notes = (if task_notes task \<noteq> [] then
                          Section_title ''Note'' #
                          map (\<lambda>raw_line. if raw_line = [] then Blank_line else Wrapped raw_line)
                            (splitlines (task_notes task))
                        else [])
           in case checklist_entries L d 1 items of
                Inl e \<Rightarrow> Inl e
              | Inr entries \<Rightarrow>
                  Inr (head @ notes @ [Section_title ''Checklist''] @ entries @
                       (if items = [] then [Wrapped ''Nessuna voce in checklist.''] else []))))"

section \<open>The view of a task\<close>

text \<open>The name \<^verbatim>\<open>f"task-{task.id}-report.pdf"\<close> under which the report is stored.\<close>

definition report_filename :: "nat \<Rightarrow> string" where
  "report_filename k = ''task-'' @ str_nat k @ ''-report.pdf''"

text \<open>
  The branch \<^verbatim>\<open>action == "save_answers"\<close> of \<^verbatim>\<open>task_detail\<close>. The clock is read twice
  when the task is closed: \<open>now\<close> stamps the completion, \<open>now2\<close> dates the report.
\<close>

definition save_answers :: "'d lib \<Rightarrow> timestamp \<Rightarrow> timestamp \<Rightarrow> request \<Rightarrow> MaintenanceTask \<Rightarrow> 'd db \<Rightarrow> 'd outcome" where
  "save_answers L now now2 req task d =
     (let items = filter (\<lambda>i. item_task i = task_id task) (checklist_items d) in
      case answers_loop L req items (checklist_items d) of
        (rows, Inl e) \<Rightarrow> (d\<lparr>checklist_items := rows\<rparr>, Inl e)
      | (rows, Inr items1) \<Rightarrow>
          (let d1 = d\<lparr>checklist_items := rows\<rparr> in
           if POST req ''close_task'' = Some ''1'' then
             (let completed_changed = (task_status task \<noteq> ''done'' \<or> completed_at task = None);
                  task1 = (if completed_changed then task\<lparr>completed_at := Some now\<rparr> else task)
              in case build_task_report_pdf L now2 d1 task1 items1 of
                   Inl e \<Rightarrow> (d1, Inl e)
                 | Inr pdf_bytes \<Rightarrow>
                     (let filename = report_filename (task_id task);
                          task2 = task1\<lparr>report_pdf := Some (filename, pdf_bytes)\<rparr>;
                          task3 = task2\<lparr>task_status := ''done''\<rparr>;
                          update_fields = [''status'', ''report_pdf''] @
                                          (if completed_changed then [''completed_at''] else [])
                      in (d1\<lparr>tasks := save_task update_fields task3 (tasks d1)\<rparr>,
                          Inr (Redirect_task_detail (task_id task)))))
           else (d1, Inr (Redirect_task_detail (task_id task)))))"

text \<open>The decorator \<^verbatim>\<open>@login_required\<close>: a request without a user is sent to the login page.\<close>

definition login_required :: "request \<Rightarrow> 'd db \<Rightarrow> 'd outcome \<Rightarrow> 'd outcome" where
  "login_required req d view = (if user req = None then (d, Inr Redirect_login) else view)"

definition task_detail :: "'d lib \<Rightarrow> timestamp \<Rightarrow> timestamp \<Rightarrow> request \<Rightarrow> nat \<Rightarrow> 'd db \<Rightarrow> 'd outcome" where
  "task_detail L now now2 req tid d =
     login_required req d
       (case get_object_or_404 task_id (tasks d) tid of
          Inl e \<Rightarrow> (d, Inl e)
        | Inr task \<Rightarrow>
            if http_method req = ''POST'' then
              (let action = get_param (POST req) ''action'' '''' in
               if action = ''update_task'' then update_task now req task d
               else if action = ''generate_checklist'' then generate_checklist req task d
               else if action = ''add_checklist_item'' then add_checklist_item req task d
               else if action = ''save_answers'' then save_answers L now now2 req task d
               else (d, Inr Rendered))
            else (d, Inr Rendered))"

section \<open>The list views\<close>

definition parse_datetime_local :: "'d lib \<Rightarrow> timestamp \<Rightarrow> string \<Rightarrow> error + timestamp" where
  "parse_datetime_local L now v =
     (if v = [] then Inr now
      else case parse_datetime L v of
             Inl e \<Rightarrow> Inl e
           | Inr (Some t) \<Rightarrow> Inr t
           | Inr None \<Rightarrow> (case fromisoformat L v of None \<Rightarrow> Inr now | Some t \<Rightarrow> Inr t))"

text \<open>
  The branch \<^verbatim>\<open>action == "create_task"\<close> of \<^verbatim>\<open>task_list\<close>. \<^verbatim>\<open>template.site_id\<close> is tested
  for truth first, so a key 0 counts as no site.
\<close>

definition create_task :: "'d lib \<Rightarrow> timestamp \<Rightarrow> request \<Rightarrow> 'd db \<Rightarrow> 'd outcome option" where
  "create_task L now req d =
     (let title = strip (get_param (POST req) ''title'' '''');
          site_id_str = strip (get_param (POST req) ''site_id'' '''')
      in if title \<noteq> [] \<and> site_id_str \<noteq> [] then
           Some
             (case get_object_or_404_str site_id (sites d) site_id_str of
                Inl e \<Rightarrow> (d, Inl e)
              | Inr site \<Rightarrow>
                  (case parse_datetime_local L now (strip (get_param (POST req) ''scheduled_for'' '''')) of
                     Inl e \<Rightarrow> (d, Inl e)
                   | Inr sched \<Rightarrow>
                       (let status0 = strip (get_param (POST req) ''status'' ''scheduled'');
                            status = (if status0 \<notin> valid_status then ''scheduled'' else status0);
                            notes = strip (get_param (POST req) ''notes'' '''');
                            task = \<lparr>task_id = fresh_id task_id (tasks d), task_site = site_id site,
                                    task_title = title, scheduled_for = sched, task_status = status,
                                    task_notes = notes, report_pdf = None, completed_at = None,
                                    created_by = user req\<rparr>;
                            d1 = d\<lparr>tasks := tasks d @ [task]\<rparr>;
                            template_id_str = strip (get_param (POST req) ''template_id'' '''');
                            asset_id_str = strip (get_param (POST req) ''asset_id'' '''')
                        in if template_id_str \<noteq> [] then
                             (case get_object_or_404_str template_id (templates d1) template_id_str of
                                Inl e \<Rightarrow> (d1, Inl e)
                              | Inr template \<Rightarrow>
                                  (let template1 =
                                         (if (case template_site template of
                                                None \<Rightarrow> False
                                              | Some s \<Rightarrow> s \<noteq> 0 \<and> s \<noteq> site_id site)
                                          then None else Some template)
                                   in case asset_of_site d1 asset_id_str (site_id site) of
                                        Inl e \<Rightarrow> (d1, Inl e)
                                      | Inr asset \<Rightarrow>
                                          (case template1 of
                                             None \<Rightarrow> (d1, Inr (Redirect_task_detail (task_id task)))
                                           | Some t \<Rightarrow>
                                               (create_checklist_from_template task t asset d1,
                                                Inr (Redirect_task_detail (task_id task))))))
                           else (d1, Inr (Redirect_task_detail (task_id task))))))
         else None)"

definition task_list :: "'d lib \<Rightarrow> timestamp \<Rightarrow> request \<Rightarrow> 'd db \<Rightarrow> 'd outcome" where
  "task_list L now req d =
     login_required req d
       (if http_method req = ''POST'' \<and> POST req ''action'' = Some ''create_task'' then
          (case create_task L now req d of
             Some out \<Rightarrow> out
           | None \<Rightarrow> (d, Inr Rendered))
        else (d, Inr Rendered))"

text \<open>
  The query of \<^verbatim>\<open>asset_list\<close>: the assets joined with their sites, the two filters, and the
  order by name. The order of names is the one of the character codes.
\<close>

definition asset_matches :: "string \<Rightarrow> Asset \<times> Site \<Rightarrow> bool" where
  "asset_matches query r =
     (case r of (a, s) \<Rightarrow>
        icontains (asset_name a) query \<or> icontains (asset_type a) query \<or>
        icontains (asset_serial a) query \<or> icontains (site_name s) query \<or>
        icontains (asset_vendor a) query)"

definition asset_list_query :: "request \<Rightarrow> 'd db \<Rightarrow> Asset list" where
  "asset_list_query req d =
     (let status_filter = strip (get_param (GET req) ''status'' '''');
          query = strip (get_param (GET req) ''q'' '''');
          assets0 = concat (map (\<lambda>a. map (\<lambda>s. (a, s)) (filter (\<lambda>s. site_id s = asset_site a) (sites d))) (assets d));
          assets1 = (if status_filter \<noteq> [] then filter (\<lambda>r. asset_status (fst r) = status_filter) assets0 else assets0);
          assets2 = (if query \<noteq> [] then filter (asset_matches query) assets1 else assets1)
      in sort_key (\<lambda>a. map (of_char :: char \<Rightarrow> nat) (asset_name a)) (map fst assets2))"

definition asset_list :: "request \<Rightarrow> 'd db \<Rightarrow> 'd db \<times> (error + response)" where
  "asset_list req d = login_required req d (d, Inr (Assets_page (asset_list_query req d)))"

text \<open>The branch \<^verbatim>\<open>action == "start_task"\<close> of \<^verbatim>\<open>dashboard\<close>.\<close>

definition dashboard :: "request \<Rightarrow> 'd db \<Rightarrow> 'd outcome" where
  "dashboard req d =
     login_required req d
       (if http_method req = ''POST'' \<and> POST req ''action'' = Some ''start_task'' then
          (let task_id_str = strip (get_param (POST req) ''task_id'' '''') in
           if task_id_str \<noteq> [] then
             (case get_object_or_404_str task_id (tasks d) task_id_str of
                Inl e \<Rightarrow> (d, Inl e)
              | Inr task \<Rightarrow>
                  if task_status task \<in> {''scheduled'', ''in_progress''} then
                    (d\<lparr>tasks := save_task [''status''] (task\<lparr>task_status := ''in_progress''\<rparr>) (tasks d)\<rparr>,
                     Inr (Redirect_task_detail (task_id task)))
                  else (d, Inr (Redirect_task_detail (task_id task))))
           else (d, Inr Rendered))
        else (d, Inr Rendered))"

section \<open>The administration site\<close>

text \<open>
  \<^verbatim>\<open>admin.py\<close> registers the models with the framework's administration site, whose
  forms write rows without passing through the views. What a form can write follows
  from the declarations of the model:
  \<^item> a template item is edited and deleted through the inline of its template; the
    column \<^verbatim>\<open>template_item\<close> of a checklist item is declared
    \<^verbatim>\<open>on_delete=models.SET_NULL\<close>, so deleting a template item empties that column in
    the rows that refer to it and leaves the rows in place;
  \<^item> an asset is added and changed through its own form; \<^verbatim>\<open>qr_token\<close> is declared
    \<^verbatim>\<open>default=uuid.uuid4, unique=True, editable=False\<close> and listed in
    \<^verbatim>\<open>readonly_fields\<close>: a new asset takes the identifier drawn for it, the insert
    fails when another row holds the same one, and the change form has no field for it.
\<close>

definition admin_change_template_item :: "nat \<Rightarrow> ChecklistTemplateItem \<Rightarrow> 'd db \<Rightarrow> 'd db" where
  "admin_change_template_item k form d =
     d\<lparr>template_items := map (\<lambda>r. if ti_id r = k then form\<lparr>ti_id := k\<rparr> else r) (template_items d)\<rparr>"

definition admin_delete_template_item :: "nat \<Rightarrow> 'd db \<Rightarrow> 'd db" where
  "admin_delete_template_item k d =
     d\<lparr>template_items := filter (\<lambda>r. ti_id r \<noteq> k) (template_items d),
       checklist_items := map (\<lambda>r. if template_item r = Some k then r\<lparr>template_item := None\<rparr> else r)
                            (checklist_items d)\<rparr>"

definition admin_add_asset :: "Asset \<Rightarrow> nat \<Rightarrow> 'd db \<Rightarrow> error + 'd db" where
  "admin_add_asset form token d =
     (if token \<in> set (map qr_token (assets d)) then Inl IntegrityError
      else Inr (d\<lparr>assets := assets d @ [form\<lparr>asset_id := fresh_id asset_id (assets d), qr_token := token\<rparr>]\<rparr>))"

definition admin_change_asset :: "nat \<Rightarrow> Asset \<Rightarrow> 'd db \<Rightarrow> 'd db" where
  "admin_change_asset k form d =
     d\<lparr>assets := map (\<lambda>r. if asset_id r = k then form\<lparr>asset_id := k, qr_token := qr_token r\<rparr> else r) (assets d)\<rparr>"

section \<open>Runs of the system\<close>

text \<open>
  One constructor per entry point that can write: the views of \<^verbatim>\<open>urls.py\<close> that handle a
  form, and the forms of the administration site modelled above. The remaining views
  only read. An asset that the administration site refuses to add leaves the database
  as it was. The deletion of rows other than template items is left out.
\<close>

datatype operation =
    Task_detail timestamp timestamp request nat
  | Task_list timestamp request
  | Dashboard request
  | Asset_list request
  | Admin_add_asset Asset nat
  | Admin_change_asset nat Asset
  | Admin_change_template_item nat ChecklistTemplateItem
  | Admin_delete_template_item nat

fun perform :: "'d lib \<Rightarrow> operation \<Rightarrow> 'd db \<Rightarrow> 'd db" where
  "perform L (Task_detail now now2 req tid) d = fst (task_detail L now now2 req tid d)"
| "perform L (Task_list now req) d = fst (task_list L now req d)"
| "perform L (Dashboard req) d = fst (dashboard req d)"
| "perform L (Asset_list req) d = fst (asset_list req d)"
| "perform L (Admin_add_asset form token) d =
     (case admin_add_asset form token d of Inl e \<Rightarrow> d | Inr d1 \<Rightarrow> d1)"
| "perform L (Admin_change_asset k form) d = admin_change_asset k form d"
| "perform L (Admin_change_template_item k form) d = admin_change_template_item k form d"
| "perform L (Admin_delete_template_item k) d = admin_delete_template_item k d"

definition run :: "'d lib \<Rightarrow> operation list \<Rightarrow> 'd db \<Rightarrow> 'd db" where
  "run L ops d = fold (perform L) ops d"

section \<open>Properties of checklist items\<close>

text \<open>
  The value column that the type of an item selects is the only one that may hold a
  value: the others are at their defaults.
\<close>

definition value_matches_type :: "'d TaskChecklistItem \<Rightarrow> bool" where
  "value_matches_type item =
     ((item_type item = ''yesno'' \<or> value_bool item = None) \<and>
      (item_type item = ''number'' \<or> value_number item = None) \<and>
      (item_type item = ''text'' \<or> value_text item = []) \<and>
      (item_type item = ''photo'' \<or> attachment item = None))"

text \<open>The four columns that a snapshot copies from the template item.\<close>

definition snapshot_columns :: "'d TaskChecklistItem \<Rightarrow> string \<times> string \<times> bool \<times> string" where
  "snapshot_columns item = (label_snapshot item, item_type item, required item, unit item)"

definition template_columns :: "ChecklistTemplateItem \<Rightarrow> string \<times> string \<times> bool \<times> string" where
  "template_columns item = (ti_label item, ti_item_type item, ti_required item, ti_unit item)"

section \<open>Example data\<close>

text \<open>
  A stand-in for the library functions on which the views are evaluated below:
  decimals are the integers written in digits, the column takes at most nine
  of them, and an instant is printed as its number.
\<close>

definition example_lib :: "int lib" where
  "example_lib =
     \<lparr>Decimal = (\<lambda>s. if s \<noteq> [] \<and> list_all isdigit s then Some (int (digits_value s)) else None),
      storable = (\<lambda>n. \<bar>n\<bar> < 1000000000),
      str_decimal = (\<lambda>n. str_nat (nat n)),
      strftime = str_nat,
      parse_datetime = (\<lambda>s. Inr None),
      fromisoformat = (\<lambda>s. None)\<rparr>"

definition site_nord :: Site where
  "site_nord = \<lparr>site_id = 1, site_name = ''Vivaio Nord'', site_address = ''Via Roma 1'', site_notes = ''''\<rparr>"

definition site_sud :: Site where
  "site_sud = \<lparr>site_id = 2, site_name = ''Vivaio Sud'', site_address = '''', site_notes = ''''\<rparr>"

definition asset_pompa :: Asset where
  "asset_pompa =
     \<lparr>asset_id = 1, asset_site = 1, asset_name = ''Pompa'', asset_type = ''Irrigazione'',
      asset_serial = ''SN-7'', asset_vendor = ''Acme'', asset_status = ''active'', qr_token = 1001\<rparr>"

definition asset_serra :: Asset where
  "asset_serra =
     \<lparr>asset_id = 2, asset_site = 2, asset_name = ''Caldaia'', asset_type = ''Riscaldamento'',
      asset_serial = ''K-2'', asset_vendor = ''Beta'', asset_status = ''active'', qr_token = 1002\<rparr>"

definition task_nord :: MaintenanceTask where
  "task_nord =
     \<lparr>task_id = 1, task_site = 1, task_title = ''Controllo pompa'', scheduled_for = 100,
      task_status = ''scheduled'', task_notes = '''', report_pdf = None, completed_at = None,
      created_by = None\<rparr>"

definition task_sud :: MaintenanceTask where
  "task_sud =
     \<lparr>task_id = 2, task_site = 2, task_title = ''Controllo caldaia'', scheduled_for = 40,
      task_status = ''done'', task_notes = ''Fatto'', report_pdf = None, completed_at = Some 50,
      created_by = Some 1\<rparr>"

definition template_nord :: ChecklistTemplate where
  "template_nord = \<lparr>template_id = 1, template_name = ''Pompe Nord'', template_site = Some 1\<rparr>"

definition template_global :: ChecklistTemplate where
  "template_global = \<lparr>template_id = 2, template_name = ''Generale'', template_site = None\<rparr>"

definition titem_pressione :: ChecklistTemplateItem where
  "titem_pressione =
     \<lparr>ti_id = 1, ti_template = 1, ti_order = 2, ti_label = ''Pressione'', ti_item_type = ''number'',
      ti_required = True, ti_unit = ''bar''\<rparr>"

definition titem_perdite :: ChecklistTemplateItem where
  "titem_perdite =
     \<lparr>ti_id = 2, ti_template = 1, ti_order = 1, ti_label = ''Perdite'', ti_item_type = ''yesno'',
      ti_required = False, ti_unit = ''''\<rparr>"

definition titem_note :: ChecklistTemplateItem where
  "titem_note =
     \<lparr>ti_id = 3, ti_template = 2, ti_order = 0, ti_label = ''Osservazioni'', ti_item_type = ''text'',
      ti_required = False, ti_unit = ''''\<rparr>"

definition item_temperatura :: "int TaskChecklistItem" where
  "item_temperatura =
     \<lparr>item_id = 1, item_task = 2, item_asset = Some 2, template_item = None,
      label_snapshot = ''Temperatura'', item_type = ''number'', required = True, unit = ''C'',
      value_text = '''', value_number = Some 70, value_bool = None, attachment = None\<rparr>"

definition item_fumi :: "int TaskChecklistItem" where
  "item_fumi =
     \<lparr>item_id = 2, item_task = 2, item_asset = None, template_item = None,
      label_snapshot = ''Fumi regolari'', item_type = ''yesno'', required = False, unit = '''',
      value_text = '''', value_number = None, value_bool = Some True, attachment = None\<rparr>"

definition item_foto :: "int TaskChecklistItem" where
  "item_foto =
     \<lparr>item_id = 3, item_task = 2, item_asset = None, template_item = None,
      label_snapshot = ''Foto targa'', item_type = ''photo'', required = False, unit = '''',
      value_text = '''', value_number = None, value_bool = None, attachment = Some ''targa.jpg''\<rparr>"

definition item_commento :: "int TaskChecklistItem" where
  "item_commento =
     \<lparr>item_id = 4, item_task = 2, item_asset = None, template_item = None,
      label_snapshot = ''Commento'', item_type = ''text'', required = False, unit = '''',
      value_text = ''ok'', value_number = None, value_bool = None, attachment = None\<rparr>"

definition example_db :: "int db" where
  "example_db =
     \<lparr>sites = [site_nord, site_sud],
      assets = [asset_pompa, asset_serra],
      tasks = [task_nord, task_sud],
      templates = [template_nord, template_global],
      template_items = [titem_pressione, titem_perdite, titem_note],
      checklist_items = [item_temperatura, item_fumi, item_foto, item_commento]\<rparr>"

text \<open>A form posted by the signed-in user 1, and a page requested with a query string.\<close>

definition post :: "(string \<times> string) list \<Rightarrow> request" where
  "post params = \<lparr>http_method = ''POST'', POST = map_of params, GET = Map.empty, FILES = Map.empty, user = Some 1\<rparr>"

definition page :: "(string \<times> string) list \<Rightarrow> request" where
  "page params = \<lparr>http_method = ''GET'', POST = Map.empty, GET = map_of params, FILES = Map.empty, user = Some 1\<rparr>"

section \<open>Task status: the completion time\<close>

lemma copy_field_task_id: "task_id (copy_field f obj row) = task_id row"
  by simp

lemma fold_copy_field_task_id: "task_id (fold (\<lambda>f. copy_field f obj) fs row) = task_id row"
  by (induction fs arbitrary: row) (simp_all del: copy_field.simps add: copy_field_task_id)

lemma filter_save_task:
  "task_id obj = k \<Longrightarrow>
   filter (\<lambda>r. task_id r = k) (save_task fs obj rows) =
   map (fold (\<lambda>f. copy_field f obj) fs) (filter (\<lambda>r. task_id r = k) rows)"
  by (induction rows) (auto simp: save_task_def fold_copy_field_task_id simp del: copy_field.simps)

lemma get_after_save_task:
  assumes "get_object_or_404 task_id rows k = Inr t" and "task_id obj = k"
  shows "get_object_or_404 task_id (save_task fs obj rows) k = Inr (fold (\<lambda>f. copy_field f obj) fs t)"
  using assms by (auto simp: get_object_or_404_def filter_save_task split: list.splits)

lemma get_object_task_id: "get_object_or_404 pk rows k = Inr t \<Longrightarrow> pk t = k"
proof -
  assume a: "get_object_or_404 pk rows k = Inr t"
  then obtain xs where "filter (\<lambda>r. pk r = k) rows = t # xs"
    by (auto simp: get_object_or_404_def split: list.splits)
  then have "t \<in> set (filter (\<lambda>r. pk r = k) rows)" by simp
  then show ?thesis by simp
qed

lemma update_task_row:
  assumes "get_object_or_404 task_id (tasks d) tid = Inr t"
    and "strip (get_param (POST req) ''status'' '''') \<in> valid_status"
  shows "get_object_or_404 task_id (tasks (fst (update_task now req t d))) tid =
         Inr (t\<lparr>task_status := strip (get_param (POST req) ''status'' ''''),
                completed_at := (if strip (get_param (POST req) ''status'' '''') = ''done'' \<and>
                                    (task_status t \<noteq> ''done'' \<or> completed_at t = None)
                                 then Some now else completed_at t)\<rparr>)"
proof -
  have k: "task_id t = tid" using assms(1) by (rule get_object_task_id)
  show ?thesis
    using assms(2) k
    by (simp add: update_task_def Let_def get_after_save_task [OF assms(1)])
qed


lemma fold_copy3:
  "fold (\<lambda>f. copy_field f obj) [''status'', ''report_pdf'', ''completed_at''] row =
   row\<lparr>task_status := task_status obj, report_pdf := report_pdf obj, completed_at := completed_at obj\<rparr>"
  by simp

lemma fold_copy2:
  "fold (\<lambda>f. copy_field f obj) [''status'', ''report_pdf''] row =
   row\<lparr>task_status := task_status obj, report_pdf := report_pdf obj\<rparr>"
  by simp


lemma save_answers_error:
  assumes "answers_loop L req (filter (\<lambda>i. item_task i = task_id t) (checklist_items d)) (checklist_items d) = (rows, Inl e)"
  shows "save_answers L now now2 req t d = (d\<lparr>checklist_items := rows\<rparr>, Inl e)"
  unfolding save_answers_def Let_def assms prod.case sum.case by (rule refl)

lemma save_answers_report_error:
  assumes loop: "answers_loop L req (filter (\<lambda>i. item_task i = task_id t) (checklist_items d)) (checklist_items d) = (rows, Inr items1)"
    and c: "POST req ''close_task'' = Some ''1''"
    and b: "build_task_report_pdf L now2 (d\<lparr>checklist_items := rows\<rparr>)
              (if task_status t \<noteq> ''done'' \<or> completed_at t = None then t\<lparr>completed_at := Some now\<rparr> else t) items1 = Inl e"
  shows "save_answers L now now2 req t d = (d\<lparr>checklist_items := rows\<rparr>, Inl e)"
  unfolding save_answers_def Let_def loop prod.case sum.case c b
  by (simp del: append.simps split del: if_split)

lemma save_answers_open:
  assumes loop: "answers_loop L req (filter (\<lambda>i. item_task i = task_id t) (checklist_items d)) (checklist_items d) = (rows, Inr items1)"
    and c: "POST req ''close_task'' \<noteq> Some ''1''"
  shows "save_answers L now now2 req t d = (d\<lparr>checklist_items := rows\<rparr>, Inr (Redirect_task_detail (task_id t)))"
  unfolding save_answers_def Let_def loop prod.case sum.case using c
  by (simp del: append.simps split del: if_split)

lemma row3:
  "fold (\<lambda>f. copy_field f (t\<lparr>completed_at := Some now, report_pdf := Some p, task_status := ''done''\<rparr>))
      [''status'', ''report_pdf'', ''completed_at''] t =
   t\<lparr>task_status := ''done'', report_pdf := Some p, completed_at := Some now\<rparr>"
  unfolding fold_copy3 by simp

lemma row2:
  "fold (\<lambda>f. copy_field f (t\<lparr>report_pdf := Some p, task_status := ''done''\<rparr>))
      [''status'', ''report_pdf''] t =
   t\<lparr>task_status := ''done'', report_pdf := Some p, completed_at := completed_at t\<rparr>"
  unfolding fold_copy2 by simp


lemma save_answers_close_stamp:
  assumes loop: "answers_loop L req (filter (\<lambda>i. item_task i = task_id t) (checklist_items d)) (checklist_items d) = (rows, Inr items1)"
    and c: "POST req ''close_task'' = Some ''1''"
    and cc: "task_status t \<noteq> ''done'' \<or> completed_at t = None"
    and b: "build_task_report_pdf L now2 (d\<lparr>checklist_items := rows\<rparr>) (t\<lparr>completed_at := Some now\<rparr>) items1 = Inr doc"
  shows "save_answers L now now2 req t d =
           (d\<lparr>checklist_items := rows,
              tasks := save_task [''status'', ''report_pdf'', ''completed_at'']
                         (t\<lparr>completed_at := Some now,
                            report_pdf := Some (report_filename (task_id t), doc),
                            task_status := ''done''\<rparr>)
                         (tasks d)\<rparr>,
            Inr (Redirect_task_detail (task_id t)))"
  unfolding save_answers_def Let_def loop prod.case sum.case c if_P [OF cc] if_P [OF refl] b
  by simp

lemma save_answers_close_keep:
  assumes loop: "answers_loop L req (filter (\<lambda>i. item_task i = task_id t) (checklist_items d)) (checklist_items d) = (rows, Inr items1)"
    and c: "POST req ''close_task'' = Some ''1''"
    and cc: "\<not> (task_status t \<noteq> ''done'' \<or> completed_at t = None)"
    and b: "build_task_report_pdf L now2 (d\<lparr>checklist_items := rows\<rparr>) t items1 = Inr doc"
  shows "save_answers L now now2 req t d =
           (d\<lparr>checklist_items := rows,
              tasks := save_task [''status'', ''report_pdf'']
                         (t\<lparr>report_pdf := Some (report_filename (task_id t), doc),
                            task_status := ''done''\<rparr>)
                         (tasks d)\<rparr>,
            Inr (Redirect_task_detail (task_id t)))"
  unfolding save_answers_def Let_def loop prod.case sum.case c if_not_P [OF cc] if_P [OF refl] b
  by simp

lemma close_row_aux:
  assumes g1: "get_object_or_404 task_id (tasks d) (task_id t) = Inr t"
    and eq: "save_answers L now now2 req t d =
             (d\<lparr>checklist_items := rows, tasks := save_task fs obj (tasks d)\<rparr>, r)"
    and o: "task_id obj = task_id t"
  shows "get_object_or_404 task_id (tasks (fst (save_answers L now now2 req t d))) (task_id t) =
         Inr (fold (\<lambda>f. copy_field f obj) fs t)"
  unfolding eq by (simp add: get_after_save_task [OF g1 o])




lemma close_row_stamp:
  assumes g1: "get_object_or_404 task_id (tasks d) (task_id t) = Inr t"
    and loop1: "answers_loop L req (filter (\<lambda>i. item_task i = task_id t) (checklist_items d)) (checklist_items d) = (rows, Inr items1)"
    and c: "POST req ''close_task'' = Some ''1''"
    and cc: "task_status t \<noteq> ''done'' \<or> completed_at t = None"
    and b: "build_task_report_pdf L now2 (d\<lparr>checklist_items := rows\<rparr>) (t\<lparr>completed_at := Some now\<rparr>) items1 = Inr doc"
  shows "get_object_or_404 task_id (tasks (fst (save_answers L now now2 req t d))) (task_id t) =
          Inr (t\<lparr>task_status := ''done'',
                report_pdf := Some (report_filename (task_id t), doc),
                completed_at := Some now\<rparr>)"
proof -
  have o: "task_id (t\<lparr>completed_at := Some now, report_pdf := Some (report_filename (task_id t), doc),
                     task_status := ''done''\<rparr>) = task_id t" by simp
  note e = save_answers_close_stamp [OF loop1 c cc b]
  note r = close_row_aux [OF g1 e o]
  show ?thesis
    unfolding r row3
    by (rule refl)
qed

lemma close_row_keep:
  assumes g1: "get_object_or_404 task_id (tasks d) (task_id t) = Inr t"
    and loop1: "answers_loop L req (filter (\<lambda>i. item_task i = task_id t) (checklist_items d)) (checklist_items d) = (rows, Inr items1)"
    and c: "POST req ''close_task'' = Some ''1''"
    and cc: "\<not> (task_status t \<noteq> ''done'' \<or> completed_at t = None)"
    and b: "build_task_report_pdf L now2 (d\<lparr>checklist_items := rows\<rparr>) t items1 = Inr doc"
  shows "get_object_or_404 task_id (tasks (fst (save_answers L now now2 req t d))) (task_id t) =
          Inr (t\<lparr>task_status := ''done'',
                report_pdf := Some (report_filename (task_id t), doc),
                completed_at := completed_at t\<rparr>)"
proof -
  have o: "task_id (t\<lparr>report_pdf := Some (report_filename (task_id t), doc),
                     task_status := ''done''\<rparr>) = task_id t" by simp
  note e = save_answers_close_keep [OF loop1 c cc b]
  note r = close_row_aux [OF g1 e o]
  show ?thesis
    unfolding r row2
    by (rule refl)
qed

lemma save_answers_close_row:
  assumes g: "get_object_or_404 task_id (tasks d) tid = Inr t"
    and c: "POST req ''close_task'' = Some ''1''"
    and ok: "snd (save_answers L now now2 req t d) = Inr resp"
  shows "\<exists>doc. get_object_or_404 task_id (tasks (fst (save_answers L now now2 req t d))) tid =
         Inr (t\<lparr>task_status := ''done'',
                report_pdf := Some (report_filename tid, doc),
                completed_at := (if task_status t \<noteq> ''done'' \<or> completed_at t = None
                                 then Some now else completed_at t)\<rparr>)"
proof -
  have k: "task_id t = tid" using g by (rule get_object_task_id)
  have g1: "get_object_or_404 task_id (tasks d) (task_id t) = Inr t"
    using g k by simp
  obtain rows res where loop:
    "answers_loop L req (filter (\<lambda>i. item_task i = task_id t) (checklist_items d)) (checklist_items d) = (rows, res)"
    by (cases "answers_loop L req (filter (\<lambda>i. item_task i = task_id t) (checklist_items d)) (checklist_items d)")
  show ?thesis
  proof (cases res)
    case (Inl e)
    have "save_answers L now now2 req t d = (d\<lparr>checklist_items := rows\<rparr>, Inl e)"
      by (rule save_answers_error [OF loop [unfolded Inl]])
    with ok show ?thesis by simp
  next
    case (Inr items1)
    note loop1 = loop [unfolded Inr]
    show ?thesis
    proof (cases "task_status t \<noteq> ''done'' \<or> completed_at t = None")
      case cc: True
      show ?thesis
      proof (cases "build_task_report_pdf L now2 (d\<lparr>checklist_items := rows\<rparr>) (t\<lparr>completed_at := Some now\<rparr>) items1")
        case (Inl e)
        then have be: "build_task_report_pdf L now2 (d\<lparr>checklist_items := rows\<rparr>)
              (if task_status t \<noteq> ''done'' \<or> completed_at t = None then t\<lparr>completed_at := Some now\<rparr> else t) items1 = Inl e"
          unfolding if_P [OF cc] .
        have "save_answers L now now2 req t d = (d\<lparr>checklist_items := rows\<rparr>, Inl e)"
          by (rule save_answers_report_error [OF loop1 c be])
        with ok show ?thesis by simp
      next
        case b: (Inr doc)
        have h: "get_object_or_404 task_id (tasks (fst (save_answers L now now2 req t d))) tid =
          Inr (t\<lparr>task_status := ''done'', report_pdf := Some (report_filename tid, doc),
                completed_at := Some now\<rparr>)"
          using close_row_stamp [OF g1 loop1 c cc b] unfolding k .
        show ?thesis unfolding if_P [OF cc] by (rule exI [of _ doc], rule h)
      qed
    next
      case cc: False
      show ?thesis
      proof (cases "build_task_report_pdf L now2 (d\<lparr>checklist_items := rows\<rparr>) t items1")
        case (Inl e)
        then have be: "build_task_report_pdf L now2 (d\<lparr>checklist_items := rows\<rparr>)
              (if task_status t \<noteq> ''done'' \<or> completed_at t = None then t\<lparr>completed_at := Some now\<rparr> else t) items1 = Inl e"
          unfolding if_not_P [OF cc] .
        have "save_answers L now now2 req t d = (d\<lparr>checklist_items := rows\<rparr>, Inl e)"
          by (rule save_answers_report_error [OF loop1 c be])
        with ok show ?thesis by simp
      next
        case b: (Inr doc)
        have h: "get_object_or_404 task_id (tasks (fst (save_answers L now now2 req t d))) tid =
          Inr (t\<lparr>task_status := ''done'', report_pdf := Some (report_filename tid, doc),
                completed_at := completed_at t\<rparr>)"
          using close_row_keep [OF g1 loop1 c cc b] unfolding k .
        show ?thesis unfolding if_not_P [OF cc] by (rule exI [of _ doc], rule h)
      qed
    qed
  qed
qed

lemma task_detail_post:
  assumes "user req \<noteq> None" and "http_method req = ''POST''"
    and "get_object_or_404 task_id (tasks d) tid = Inr t"
  shows "task_detail L now now2 req tid d =
         (let action = get_param (POST req) ''action'' '''' in
          if action = ''update_task'' then update_task now req t d
          else if action = ''generate_checklist'' then generate_checklist req t d
          else if action = ''add_checklist_item'' then add_checklist_item req t d
          else if action = ''save_answers'' then save_answers L now now2 req t d
          else (d, Inr Rendered))"
  using assms unfolding task_detail_def login_required_def by auto

lemma task_detail_update:
  assumes "user req \<noteq> None" and "http_method req = ''POST''"
    and "get_object_or_404 task_id (tasks d) tid = Inr t"
    and "get_param (POST req) ''action'' '''' = ''update_task''"
  shows "task_detail L now now2 req tid d = update_task now req t d"
  unfolding task_detail_post [OF assms(1-3)] Let_def assms(4) by simp

lemma task_detail_save_answers:
  assumes "user req \<noteq> None" and "http_method req = ''POST''"
    and "get_object_or_404 task_id (tasks d) tid = Inr t"
    and "get_param (POST req) ''action'' '''' = ''save_answers''"
  shows "task_detail L now now2 req tid d = save_answers L now now2 req t d"
  unfolding task_detail_post [OF assms(1-3)] Let_def assms(4) by simp

text \<open>
  Claim C2. A request that sets the status of a task, either the form \<^verbatim>\<open>update_task\<close>
  with a valid status \<open>s\<close> or the closing of the task (where \<open>s\<close> is \<^verbatim>\<open>done\<close>), leaves
  the stored task with status \<open>s\<close>; its completion time is the current instant when
  \<open>s\<close> is \<^verbatim>\<open>done\<close> and the task was not \<^verbatim>\<open>done\<close> before or had no completion time,
  and is the completion time it had in every other case: closing again a task that is
  done and stamped keeps the stamp, and leaving \<^verbatim>\<open>done\<close> does not clear it.
\<close>

theorem completion_stamp:
  assumes u: "user req \<noteq> None" and m: "http_method req = ''POST''"
    and g: "get_object_or_404 task_id (tasks d) tid = Inr t"
    and a: "(get_param (POST req) ''action'' '''' = ''update_task'' \<and>
             s = strip (get_param (POST req) ''status'' '''') \<and> s \<in> valid_status)
          \<or> (get_param (POST req) ''action'' '''' = ''save_answers'' \<and>
             POST req ''close_task'' = Some ''1'' \<and> s = ''done'' \<and>
             snd (task_detail L now now2 req tid d) = Inr resp)"
  shows "\<exists>t'. get_object_or_404 task_id (tasks (fst (task_detail L now now2 req tid d))) tid = Inr t' \<and>
              task_status t' = s \<and>
              completed_at t' = (if s = ''done'' \<and> (task_status t \<noteq> ''done'' \<or> completed_at t = None)
                                 then Some now else completed_at t)"
  using a
proof (elim disjE conjE)
  assume act: "get_param (POST req) ''action'' '''' = ''update_task''"
    and s: "s = strip (get_param (POST req) ''status'' '''')" and v: "s \<in> valid_status"
  have v': "strip (get_param (POST req) ''status'' '''') \<in> valid_status" using s v by simp
  note row = update_task_row [OF g v', of now, folded s]
  show ?thesis
    unfolding task_detail_update [OF u m g act] row by simp
next
  assume act: "get_param (POST req) ''action'' '''' = ''save_answers''"
    and c: "POST req ''close_task'' = Some ''1''" and s: "s = ''done''"
    and ok: "snd (task_detail L now now2 req tid d) = Inr resp"
  note eq = task_detail_save_answers [OF u m g act]
  from ok have ok': "snd (save_answers L now now2 req t d) = Inr resp" unfolding eq .
  from save_answers_close_row [OF g c ok'] obtain doc where
    row: "get_object_or_404 task_id (tasks (fst (save_answers L now now2 req t d))) tid =
         Inr (t\<lparr>task_status := ''done'', report_pdf := Some (report_filename tid, doc),
                completed_at := (if task_status t \<noteq> ''done'' \<or> completed_at t = None
                                 then Some now else completed_at t)\<rparr>)" ..
  show ?thesis
    unfolding eq row s by simp
qed

theorem completion_stamp_witness:
  "(get_object_or_404 task_id (tasks example_db) 1 = Inr task_nord \<and> completed_at task_nord = None \<and>
    (\<exists>t'. get_object_or_404 task_id
            (tasks (fst (task_detail example_lib 500 501
                          (post [(''action'', ''update_task''), (''status'', ''done'')]) 1 example_db))) 1 = Inr t' \<and>
          task_status t' = ''done'' \<and> completed_at t' = Some 500)) \<and>
   (get_object_or_404 task_id (tasks example_db) 2 = Inr task_sud \<and> completed_at task_sud = Some 50 \<and>
    (\<exists>t'. get_object_or_404 task_id
            (tasks (fst (task_detail example_lib 500 501
                          (post [(''action'', ''save_answers''), (''close_task'', ''1'')]) 2 example_db))) 2 = Inr t' \<and>
          task_status t' = ''done'' \<and> completed_at t' = Some 50)) \<and>
   (\<exists>t'. get_object_or_404 task_id
            (tasks (fst (task_detail example_lib 500 501
                          (post [(''action'', ''update_task''), (''status'', ''in_progress'')]) 2 example_db))) 2 = Inr t' \<and>
          task_status t' = ''in_progress'' \<and> completed_at t' = Some 50)"
proof -
  let ?r1 = "post [(''action'', ''update_task''), (''status'', ''done'')]"
  let ?r2 = "post [(''action'', ''save_answers''), (''close_task'', ''1'')]"
  let ?r3 = "post [(''action'', ''update_task''), (''status'', ''in_progress'')]"
  have g1: "get_object_or_404 task_id (tasks example_db) 1 = Inr task_nord" by code_simp
  have g2: "get_object_or_404 task_id (tasks example_db) 2 = Inr task_sud" by code_simp
  have u1: "user ?r1 \<noteq> None" and m1: "http_method ?r1 = ''POST''" by (simp_all add: post_def)
  have u2: "user ?r2 \<noteq> None" and m2: "http_method ?r2 = ''POST''" by (simp_all add: post_def)
  have u3: "user ?r3 \<noteq> None" and m3: "http_method ?r3 = ''POST''" by (simp_all add: post_def)
  have a1: "(get_param (POST ?r1) ''action'' '''' = ''update_task'' \<and>
             ''done'' = strip (get_param (POST ?r1) ''status'' '''') \<and> ''done'' \<in> valid_status)
          \<or> (get_param (POST ?r1) ''action'' '''' = ''save_answers'' \<and>
             POST ?r1 ''close_task'' = Some ''1'' \<and> ''done'' = ''done'' \<and>
             snd (task_detail example_lib 500 501 ?r1 1 example_db) = Inr (Redirect_task_detail 1))"
    by code_simp
  have a2: "(get_param (POST ?r2) ''action'' '''' = ''update_task'' \<and>
             ''done'' = strip (get_param (POST ?r2) ''status'' '''') \<and> ''done'' \<in> valid_status)
          \<or> (get_param (POST ?r2) ''action'' '''' = ''save_answers'' \<and>
             POST ?r2 ''close_task'' = Some ''1'' \<and> ''done'' = ''done'' \<and>
             snd (task_detail example_lib 500 501 ?r2 2 example_db) = Inr (Redirect_task_detail 2))"
    by code_simp
  have a3: "(get_param (POST ?r3) ''action'' '''' = ''update_task'' \<and>
             ''in_progress'' = strip (get_param (POST ?r3) ''status'' '''') \<and> ''in_progress'' \<in> valid_status)
          \<or> (get_param (POST ?r3) ''action'' '''' = ''save_answers'' \<and>
             POST ?r3 ''close_task'' = Some ''1'' \<and> ''in_progress'' = ''done'' \<and>
             snd (task_detail example_lib 500 501 ?r3 2 example_db) = Inr (Redirect_task_detail 2))"
    by code_simp
  have c1: "completed_at task_nord = None" and s1: "task_status task_nord = ''scheduled''"
    by (simp_all add: task_nord_def)
  have c2: "completed_at task_sud = Some 50" and s2: "task_status task_sud = ''done''"
    by (simp_all add: task_sud_def)
  note w1 = completion_stamp [OF u1 m1 g1 a1, unfolded c1 s1]
  note w2 = completion_stamp [OF u2 m2 g2 a2, unfolded c2 s2]
  note w3 = completion_stamp [OF u3 m3 g2 a3, unfolded c2 s2]
  from w1 have w1': "\<exists>t'. get_object_or_404 task_id
            (tasks (fst (task_detail example_lib 500 501 ?r1 1 example_db))) 1 = Inr t' \<and>
          task_status t' = ''done'' \<and> completed_at t' = Some 500" by simp
  from w2 have w2': "\<exists>t'. get_object_or_404 task_id
            (tasks (fst (task_detail example_lib 500 501 ?r2 2 example_db))) 2 = Inr t' \<and>
          task_status t' = ''done'' \<and> completed_at t' = Some 50" by simp
  from w3 have w3': "\<exists>t'. get_object_or_404 task_id
            (tasks (fst (task_detail example_lib 500 501 ?r3 2 example_db))) 2 = Inr t' \<and>
          task_status t' = ''in_progress'' \<and> completed_at t' = Some 50" by simp
  show ?thesis using g1 g2 c1 c2 w1' w2' w3' by blast
qed

text \<open>
  Claim C3, as amended. The form \<^verbatim>\<open>update_task\<close> reads the status with the surrounding
  white space removed, as \<^verbatim>\<open>str.strip()\<close> removes it. When the value so read is none of the
  four statuses, the
  request changes nothing in the database (neither the status nor the completion time
  of the task) and is answered by the redirection to the page of the task, not by an
  error.
\<close>

theorem invalid_status_is_noop:
  assumes u: "user req \<noteq> None" and m: "http_method req = ''POST''"
    and g: "get_object_or_404 task_id (tasks d) tid = Inr t"
    and act: "get_param (POST req) ''action'' '''' = ''update_task''"
    and bad: "strip (get_param (POST req) ''status'' '''') \<notin> valid_status"
  shows "task_detail L now now2 req tid d = (d, Inr (Redirect_task_detail tid))"
proof -
  have k: "task_id t = tid" using g by (rule get_object_task_id)
  show ?thesis
    unfolding task_detail_update [OF u m g act] using bad k
    by (simp add: update_task_def Let_def)
qed

theorem invalid_status_is_noop_witness:
  "strip (get_param (POST (post [(''action'', ''update_task''), (''status'', ''closed'')])) ''status'' '''') \<notin> valid_status \<and>
   task_detail example_lib 500 501 (post [(''action'', ''update_task''), (''status'', ''closed'')]) 1 example_db =
     (example_db, Inr (Redirect_task_detail 1))"
proof -
  let ?r = "post [(''action'', ''update_task''), (''status'', ''closed'')]"
  have g: "get_object_or_404 task_id (tasks example_db) 1 = Inr task_nord" by code_simp
  have u: "user ?r \<noteq> None" and m: "http_method ?r = ''POST''" by (simp_all add: post_def)
  have act: "get_param (POST ?r) ''action'' '''' = ''update_task''" by code_simp
  have bad: "strip (get_param (POST ?r) ''status'' '''') \<notin> valid_status" by code_simp
  show ?thesis using bad invalid_status_is_noop [OF u m g act bad] by simp
qed

text \<open>
  Claim C3 as it is stated fails for a value that is outside the four statuses only
  by white space around it: the value \<^verbatim>\<open>" done"\<close> is none of the four, and the request
  moves the scheduled task 1 to \<^verbatim>\<open>done\<close> and stamps it.
\<close>

theorem invalid_status_counterexample:
  "get_param (POST (post [(''action'', ''update_task''), (''status'', '' done'')])) ''status'' '''' \<notin> valid_status \<and>
   map task_status (tasks example_db) = [''scheduled'', ''done''] \<and>
   map completed_at (tasks example_db) = [None, Some 50] \<and>
   map task_status (tasks (fst (task_detail example_lib 500 501
       (post [(''action'', ''update_task''), (''status'', '' done'')]) 1 example_db))) = [''done'', ''done''] \<and>
   map completed_at (tasks (fst (task_detail example_lib 500 501
       (post [(''action'', ''update_task''), (''status'', '' done'')]) 1 example_db))) = [Some 500, Some 50]"
  by code_simp

text \<open>
  The white space that the view removes is the one of \<^verbatim>\<open>str.strip()\<close>, the no-break
  space and the next-line character included: a status \<^verbatim>\<open>done\<close> followed by a no-break
  space is read as \<^verbatim>\<open>done\<close> and closes the task.
\<close>

lemma status_with_no_break_space:
  "strip (''done'' @ [CHR 0xA0]) = ''done'' \<and> strip ([CHR 0x85] @ ''done'' @ [CHR 0x09]) = ''done'' \<and>
   map task_status (tasks (fst (task_detail example_lib 500 501
       (post [(''action'', ''update_task''), (''status'', ''done'' @ [CHR 0xA0])]) 1 example_db))) =
     [''done'', ''done'']"
  by code_simp

section \<open>Answer capture: what a submission writes\<close>

lemma capture_answer_item_id [simp]: "item_id (capture_answer L req item) = item_id item"
  by (simp add: capture_answer_def Let_def split: option.split)

lemma capture_answer_item_task [simp]: "item_task (capture_answer L req item) = item_task item"
  by (simp add: capture_answer_def Let_def split: option.split)

lemma capture_answer_item_type [simp]: "item_type (capture_answer L req item) = item_type item"
  by (simp add: capture_answer_def Let_def split: option.split)

lemma capture_answer_matches:
  "value_matches_type item \<Longrightarrow> value_matches_type (capture_answer L req item)"
  by (auto simp: capture_answer_def value_matches_type_def Let_def split: option.split)

lemma save_item_cases:
  "save_item L item rows = Inr (write_row item rows) \<or> save_item L item rows = Inl DecimalFieldError"
  by (simp add: save_item_def write_row_def split: option.split)

lemma save_item_Inr: "save_item L item rows = Inr rows' \<Longrightarrow> rows' = write_row item rows"
  using save_item_cases [of L item rows] by auto

lemma save_item_None:
  "value_number item = None \<Longrightarrow> save_item L item rows = Inr (write_row item rows)"
  by (simp add: save_item_def write_row_def)

lemma write_row_matches:
  "value_matches_type item \<Longrightarrow> list_all value_matches_type rows \<Longrightarrow>
   list_all value_matches_type (write_row item rows)"
  by (induction rows) (simp_all add: write_row_def)

lemma answers_loop_Cons_saved:
  assumes "save_item L (capture_answer L req item) rows = Inr rows1"
  shows "fst (answers_loop L req (item # items) rows) = fst (answers_loop L req items rows1)"
    and "snd (answers_loop L req (item # items) rows) =
         map_sum id ((#) (capture_answer L req item)) (snd (answers_loop L req items rows1))"
  using assms by (auto simp: Let_def split: prod.split sum.split)

lemma answers_loop_Cons_failed:
  assumes "save_item L (capture_answer L req item) rows = Inl e"
  shows "answers_loop L req (item # items) rows = (rows, Inl e)"
  using assms by (simp add: Let_def)

lemma answers_loop_matches:
  "list_all value_matches_type items \<Longrightarrow> list_all value_matches_type rows \<Longrightarrow>
   list_all value_matches_type (fst (answers_loop L req items rows))"
proof (induction items arbitrary: rows)
  case Nil
  then show ?case by simp
next
  case (Cons item items)
  let ?c = "capture_answer L req item"
  from Cons.prems have m: "value_matches_type ?c" and ms: "list_all value_matches_type items"
    by (simp_all add: capture_answer_matches)
  from save_item_cases [of L ?c rows] show ?case
  proof
    assume s: "save_item L ?c rows = Inr (write_row ?c rows)"
    have "list_all value_matches_type (write_row ?c rows)"
      using m Cons.prems(2) by (rule write_row_matches)
    from Cons.IH [OF ms this] show ?thesis
      unfolding answers_loop_Cons_saved(1) [OF s] .
  next
    assume s: "save_item L ?c rows = Inl DecimalFieldError"
    show ?thesis unfolding answers_loop_Cons_failed [OF s] using Cons.prems(2) by simp
  qed
qed

lemma save_answers_items:
  "checklist_items (fst (save_answers L now now2 req t d)) =
   fst (answers_loop L req (filter (\<lambda>i. item_task i = task_id t) (checklist_items d)) (checklist_items d))"
proof -
  obtain rows res where loop:
    "answers_loop L req (filter (\<lambda>i. item_task i = task_id t) (checklist_items d)) (checklist_items d) = (rows, res)"
    by (cases "answers_loop L req (filter (\<lambda>i. item_task i = task_id t) (checklist_items d)) (checklist_items d)")
  show ?thesis
  proof (cases res)
    case (Inl e)
    show ?thesis unfolding save_answers_error [OF loop [unfolded Inl]] loop by simp
  next
    case (Inr items1)
    note loop1 = loop [unfolded Inr]
    show ?thesis
    proof (cases "POST req ''close_task'' = Some ''1''")
      case False
      show ?thesis unfolding save_answers_open [OF loop1 False] loop by simp
    next
      case c: True
      let ?t1 = "if task_status t \<noteq> ''done'' \<or> completed_at t = None then t\<lparr>completed_at := Some now\<rparr> else t"
      show ?thesis
      proof (cases "build_task_report_pdf L now2 (d\<lparr>checklist_items := rows\<rparr>) ?t1 items1")
        case (Inl e)
        show ?thesis unfolding save_answers_report_error [OF loop1 c Inl] loop by simp
      next
        case b: (Inr doc)
        show ?thesis
        proof (cases "task_status t \<noteq> ''done'' \<or> completed_at t = None")
          case cc: True
          note b1 = b [unfolded if_P [OF cc]]
          show ?thesis unfolding save_answers_close_stamp [OF loop1 c cc b1] loop by simp
        next
          case cc: False
          note b1 = b [unfolded if_not_P [OF cc]]
          show ?thesis unfolding save_answers_close_keep [OF loop1 c cc b1] loop by simp
        qed
      qed
    qed
  qed
qed

lemma list_all_filter: "list_all P xs \<Longrightarrow> list_all P (filter Q xs)"
  by (induction xs) simp_all

lemma save_answers_matches:
  assumes "list_all value_matches_type (checklist_items d)"
  shows "list_all value_matches_type (checklist_items (fst (save_answers L now now2 req t d)))"
  unfolding save_answers_items
  by (rule answers_loop_matches [OF list_all_filter [OF assms] assms])

lemma snapshot_matches: "value_matches_type (snapshot task asset item)"
  by (simp add: snapshot_def value_matches_type_def)

lemma map2_matches:
  "list_all value_matches_type items \<Longrightarrow>
   list_all value_matches_type (map2 (\<lambda>k it. it\<lparr>item_id := k\<rparr>) ks items)"
proof (induction items arbitrary: ks)
  case Nil
  then show ?case by simp
next
  case (Cons it items)
  then show ?case by (cases ks) (simp_all add: value_matches_type_def)
qed

lemma create_checklist_matches:
  assumes "list_all value_matches_type (checklist_items d)"
  shows "list_all value_matches_type (checklist_items (create_checklist_from_template task template asset d))"
proof -
  have "list_all value_matches_type (map (snapshot task asset) (template_items_all d template) :: 'a TaskChecklistItem list)"
    by (simp add: list_all_iff snapshot_matches)
  then show ?thesis using assms
    by (simp add: create_checklist_from_template_def Let_def bulk_create_def map2_matches)
qed

lemma generate_checklist_matches:
  assumes "list_all value_matches_type (checklist_items d)"
  shows "list_all value_matches_type (checklist_items (fst (generate_checklist req task d)))"
  using assms create_checklist_matches [OF assms]
  by (simp add: generate_checklist_def Let_def split: sum.split)

lemma add_checklist_item_matches:
  assumes "list_all value_matches_type (checklist_items d)"
  shows "list_all value_matches_type (checklist_items (fst (add_checklist_item req task d)))"
  using assms
  by (simp add: add_checklist_item_def Let_def value_matches_type_def split: sum.split)

lemma update_task_items: "checklist_items (fst (update_task now req task d)) = checklist_items d"
  by (simp add: update_task_def Let_def)

lemma task_detail_matches:
  assumes "list_all value_matches_type (checklist_items d)"
  shows "list_all value_matches_type (checklist_items (fst (task_detail L now now2 req tid d)))"
  using assms
  by (simp add: task_detail_def login_required_def Let_def update_task_items
      generate_checklist_matches add_checklist_item_matches save_answers_matches split: sum.split)

lemma create_task_matches:
  assumes "list_all value_matches_type (checklist_items d)"
    and "create_task L now req d = Some out"
  shows "list_all value_matches_type (checklist_items (fst out))"
proof -
  have *: "list_all value_matches_type (checklist_items (create_checklist_from_template task template asset (d\<lparr>tasks := ts\<rparr>)))"
    for task template asset ts
    by (rule create_checklist_matches) (simp add: assms(1))
  show ?thesis
    using assms *
    by (auto simp: create_task_def Let_def split: if_splits sum.splits option.splits)
qed

lemma task_list_matches:
  assumes "list_all value_matches_type (checklist_items d)"
  shows "list_all value_matches_type (checklist_items (fst (task_list L now req d)))"
  using assms create_task_matches [OF assms]
  by (simp add: task_list_def login_required_def split: option.split)

lemma write_row_ids: "item_id c = item_id item \<Longrightarrow> map item_id (write_row c rows) = map item_id rows"
  by (induction rows) (simp_all add: write_row_def)

lemma write_row_keeps:
  "i \<in> set rows \<Longrightarrow> item_id i \<noteq> item_id c \<Longrightarrow> i \<in> set (write_row c rows)"
  by (auto simp: write_row_def image_iff intro!: bexI [of _ i])

lemma same_key_same_row:
  "distinct (map item_id rows) \<Longrightarrow> r \<in> set rows \<Longrightarrow> i \<in> set rows \<Longrightarrow> item_id r = item_id i \<Longrightarrow> r = i"
  by (meson distinct_map inj_on_def)

lemma answers_loop_result:
  assumes "distinct (map item_id rows)" and "distinct (map item_id items)"
    and "set items \<subseteq> set rows"
    and "answers_loop L req items rows = (rows', Inr items1)"
  shows "rows' = map (\<lambda>r. if item_id r \<in> item_id ` set items then capture_answer L req r else r) rows \<and>
         items1 = map (capture_answer L req) items"
  using assms
proof (induction items arbitrary: rows rows' items1)
  case Nil
  then show ?case by simp
next
  case (Cons item items)
  let ?c = "capture_answer L req item"
  from save_item_cases [of L ?c rows] show ?case
  proof
    assume s: "save_item L ?c rows = Inl DecimalFieldError"
    from Cons.prems(4) show ?thesis unfolding answers_loop_Cons_failed [OF s] by simp
  next
    assume s: "save_item L ?c rows = Inr (write_row ?c rows)"
    let ?rows1 = "write_row ?c rows"
    from Cons.prems(4) have f: "fst (answers_loop L req (item # items) rows) = rows'"
      and sn: "snd (answers_loop L req (item # items) rows) = Inr items1" by simp_all
    from f have f1: "fst (answers_loop L req items ?rows1) = rows'"
      unfolding answers_loop_Cons_saved(1) [OF s] .
    from sn have sn1: "map_sum id ((#) ?c) (snd (answers_loop L req items ?rows1)) = Inr items1"
      unfolding answers_loop_Cons_saved(2) [OF s] .
    then obtain items2 where i2: "snd (answers_loop L req items ?rows1) = Inr items2"
      and i1: "items1 = ?c # items2"
      by (cases "snd (answers_loop L req items ?rows1)") auto
    have loop1: "answers_loop L req items ?rows1 = (rows', Inr items2)"
      using f1 i2 by (simp add: prod_eq_iff)
    have d1: "distinct (map item_id ?rows1)"
      using Cons.prems(1) by (simp add: write_row_ids)
    have d2: "distinct (map item_id items)" and nin: "item_id item \<notin> item_id ` set items"
      using Cons.prems(2) by simp_all
    have sub: "set items \<subseteq> set ?rows1"
    proof
      fix i assume i: "i \<in> set items"
      then have "i \<in> set rows" using Cons.prems(3) by auto
      moreover have "item_id i \<noteq> item_id ?c"
        using i nin by (metis capture_answer_item_id imageI)
      ultimately show "i \<in> set ?rows1" by (rule write_row_keeps)
    qed
    from Cons.IH [OF d1 d2 sub loop1]
    have r: "rows' = map (\<lambda>r. if item_id r \<in> item_id ` set items then capture_answer L req r else r) ?rows1"
      and it: "items2 = map (capture_answer L req) items" by simp_all
    have item_in: "item \<in> set rows" using Cons.prems(3) by simp
    have "map (\<lambda>r. if item_id r \<in> item_id ` set items then capture_answer L req r else r) ?rows1 =
          map (\<lambda>r. if item_id r \<in> item_id ` set (item # items) then capture_answer L req r else r) rows"
      unfolding write_row_def map_map
    proof (rule map_cong [OF refl])
      fix r assume rin: "r \<in> set rows"
      show "((\<lambda>r. if item_id r \<in> item_id ` set items then capture_answer L req r else r) \<circ>
             (\<lambda>r. if item_id r = item_id ?c then ?c else r)) r =
            (if item_id r \<in> item_id ` set (item # items) then capture_answer L req r else r)"
      proof (cases "item_id r = item_id item")
        case True
        then have "r = item" using same_key_same_row [OF Cons.prems(1) rin item_in] by simp
        then show ?thesis using nin by simp
      next
        case False
        then show ?thesis by simp
      qed
    qed
    with r it i1 show ?thesis by simp
  qed
qed

lemma answers_loop_filter:
  assumes d: "distinct (map item_id rows)"
    and l: "answers_loop L req (filter P rows) rows = (rows', Inr items1)"
  shows "rows' = map (\<lambda>r. if P r then capture_answer L req r else r) rows"
proof -
  have d2: "distinct (map item_id (filter P rows))" using d by (rule distinct_map_filter)
  have "rows' = map (\<lambda>r. if item_id r \<in> item_id ` set (filter P rows) then capture_answer L req r else r) rows"
    using answers_loop_result [OF d d2 _ l] by simp
  also have "\<dots> = map (\<lambda>r. if P r then capture_answer L req r else r) rows"
  proof (rule map_cong [OF refl])
    fix r assume rin: "r \<in> set rows"
    have "item_id r \<in> item_id ` set (filter P rows) \<longleftrightarrow> P r"
    proof
      assume "item_id r \<in> item_id ` set (filter P rows)"
      then obtain i where i: "i \<in> set rows" "P i" "item_id r = item_id i" by auto
      then have "r = i" using same_key_same_row [OF d rin] by simp
      then show "P r" using i by simp
    next
      assume "P r"
      then show "item_id r \<in> item_id ` set (filter P rows)" using rin by auto
    qed
    then show "(if item_id r \<in> item_id ` set (filter P rows) then capture_answer L req r else r) =
               (if P r then capture_answer L req r else r)" by simp
  qed
  finally show ?thesis .
qed

lemma save_answers_ok_loop:
  assumes "snd (save_answers L now now2 req t d) = Inr resp"
  shows "\<exists>items1. answers_loop L req (filter (\<lambda>i. item_task i = task_id t) (checklist_items d)) (checklist_items d) =
           (checklist_items (fst (save_answers L now now2 req t d)), Inr items1)"
proof -
  obtain rows res where loop:
    "answers_loop L req (filter (\<lambda>i. item_task i = task_id t) (checklist_items d)) (checklist_items d) = (rows, res)"
    by (cases "answers_loop L req (filter (\<lambda>i. item_task i = task_id t) (checklist_items d)) (checklist_items d)")
  show ?thesis
  proof (cases res)
    case (Inl e)
    from assms show ?thesis unfolding save_answers_error [OF loop [unfolded Inl]] by simp
  next
    case (Inr items1)
    have "answers_loop L req (filter (\<lambda>i. item_task i = task_id t) (checklist_items d)) (checklist_items d) =
           (checklist_items (fst (save_answers L now now2 req t d)), Inr items1)"
      unfolding save_answers_items loop Inr by simp
    then show ?thesis by (rule exI [of _ items1])
  qed
qed

lemma capture_absent_yesno:
  "item_type r = ''yesno'' \<Longrightarrow> POST req (''item_'' @ str_nat (item_id r) @ ''_yesno'') = None \<Longrightarrow>
   capture_answer L req r = r\<lparr>value_bool := None\<rparr>"
  by (simp add: capture_answer_def Let_def get_param_def)

lemma capture_absent_number:
  "item_type r = ''number'' \<Longrightarrow> POST req (''item_'' @ str_nat (item_id r) @ ''_number'') = None \<Longrightarrow>
   capture_answer L req r = r\<lparr>value_number := None\<rparr>"
  by (simp add: capture_answer_def Let_def get_param_def strip_def)

lemma capture_absent_text:
  "item_type r = ''text'' \<Longrightarrow> POST req (''item_'' @ str_nat (item_id r) @ ''_text'') = None \<Longrightarrow>
   capture_answer L req r = r\<lparr>value_text := ''''\<rparr>"
  by (simp add: capture_answer_def Let_def get_param_def strip_def)

lemma capture_absent_photo:
  "item_type r = ''photo'' \<Longrightarrow> FILES req (''item_'' @ str_nat (item_id r) @ ''_photo'') = None \<Longrightarrow>
   capture_answer L req r = r"
  by (simp add: capture_answer_def Let_def)

lemma write_row_same_key:
  "r \<in> set (write_row c rows) \<Longrightarrow> item_id r = item_id c \<Longrightarrow> r = c"
  by (auto simp: write_row_def split: if_splits)

lemma write_row_puts:
  "item_id c \<in> item_id ` set rows \<Longrightarrow> c \<in> set (write_row c rows)"
  by (auto simp: write_row_def image_iff)

lemma write_row_other:
  "r \<in> set rows \<Longrightarrow> item_id r \<noteq> item_id c \<Longrightarrow> r \<in> set (write_row c rows)"
  by (auto simp: write_row_def image_iff intro!: bexI [of _ r])

lemma task_detail_saved_rows:
  assumes u: "user req \<noteq> None" and m: "http_method req = ''POST''"
    and g: "get_object_or_404 task_id (tasks d) tid = Inr t"
    and act: "get_param (POST req) ''action'' '''' = ''save_answers''"
    and dk: "distinct (map item_id (checklist_items d))"
    and ok: "snd (task_detail L now now2 req tid d) = Inr resp"
  shows "checklist_items (fst (task_detail L now now2 req tid d)) =
           map (\<lambda>r. if item_task r = tid then capture_answer L req r else r) (checklist_items d)"
proof -
  have k: "task_id t = tid" using g by (rule get_object_task_id)
  note eq = task_detail_save_answers [OF u m g act]
  from ok have ok': "snd (save_answers L now now2 req t d) = Inr resp" unfolding eq .
  from save_answers_ok_loop [OF ok'] obtain items1 where
    loop: "answers_loop L req (filter (\<lambda>i. item_task i = task_id t) (checklist_items d)) (checklist_items d) =
           (checklist_items (fst (save_answers L now now2 req t d)), Inr items1)" ..
  show ?thesis
    unfolding eq using answers_loop_filter [OF dk loop] unfolding k .
qed

lemma map_member_same_key:
  assumes dk: "distinct (map item_id rows)" and mem: "item \<in> set rows"
    and fid: "\<And>r. item_id (f r) = item_id r"
    and rin: "r \<in> set (map f rows)" and id: "item_id r = item_id item"
  shows "r = f item"
proof -
  from rin obtain r0 where r0: "r0 \<in> set rows" and r: "r = f r0" by auto
  have "item_id r0 = item_id item" using id r fid [of r0] by simp
  then have "r0 = item" by (rule same_key_same_row [OF dk r0 mem])
  then show ?thesis using r by simp
qed

text \<open>
  Claim C4. For an item of type \<^verbatim>\<open>number\<close>, when the answer as the view reads it (the
  posted field with the surrounding white space removed) is empty or is refused by
  \<^verbatim>\<open>Decimal\<close>, the object in memory is the item with its number unset, whatever the
  number was before. Saving it raises nothing: the table keeps its keys, every stored
  row with the key of the item is the item with its number unset (the row is there
  when the key was), the rows with other keys stay, and the loop goes on to the
  remaining items. When the view answers the submission for the task of the item,
  the stored table holds the item with its number unset, and no stored row with the
  key of the item holds a number.
\<close>

theorem unparsable_number_clears:
  assumes ty: "item_type item = ''number''"
    and v: "v = strip (get_param (POST req) (''item_'' @ str_nat (item_id item) @ ''_number'') '''')"
    and bad: "v = [] \<or> Decimal L v = None"
  shows "capture_answer L req item = item\<lparr>value_number := None\<rparr> \<and>
         (case save_item L (capture_answer L req item) rows of
            Inl e \<Rightarrow> False
          | Inr rows' \<Rightarrow>
              map item_id rows' = map item_id rows \<and>
              (\<forall>r \<in> set rows'. item_id r = item_id item \<longrightarrow>
                 r = item\<lparr>value_number := None\<rparr> \<and> value_number r = None) \<and>
              (item_id item \<in> item_id ` set rows \<longrightarrow> item\<lparr>value_number := None\<rparr> \<in> set rows') \<and>
              (\<forall>r \<in> set rows. item_id r \<noteq> item_id item \<longrightarrow> r \<in> set rows') \<and>
              fst (answers_loop L req (item # items) rows) = fst (answers_loop L req items rows')) \<and>
         (user req \<noteq> None \<and> http_method req = ''POST'' \<and>
          get_param (POST req) ''action'' '''' = ''save_answers'' \<and>
          get_object_or_404 task_id (tasks d) tid = Inr t \<and>
          distinct (map item_id (checklist_items d)) \<and>
          item \<in> set (checklist_items d) \<and> item_task item = tid \<and>
          snd (task_detail L now now2 req tid d) = Inr resp \<longrightarrow>
          item\<lparr>value_number := None\<rparr> \<in> set (checklist_items (fst (task_detail L now now2 req tid d))) \<and>
          (\<forall>r \<in> set (checklist_items (fst (task_detail L now now2 req tid d))).
             item_id r = item_id item \<longrightarrow> value_number r = None))"
proof -
  define c where "c = item\<lparr>value_number := None\<rparr>"
  have cid: "item_id c = item_id item" and cv: "value_number c = None" by (simp_all add: c_def)
  have cap: "capture_answer L req item = c"
    using ty bad unfolding v c_def by (auto simp: capture_answer_def Let_def)
  have s: "save_item L c rows = Inr (write_row c rows)"
    using cv by (rule save_item_None)
  have ids: "map item_id (write_row c rows) = map item_id rows"
    using cid by (rule write_row_ids)
  have same: "\<forall>r \<in> set (write_row c rows). item_id r = item_id item \<longrightarrow> r = c \<and> value_number r = None"
  proof (intro ballI impI)
    fix r assume "r \<in> set (write_row c rows)" and "item_id r = item_id item"
    then have "r = c" unfolding cid [symmetric] by (rule write_row_same_key)
    then show "r = c \<and> value_number r = None" using cv by simp
  qed
  have puts: "item_id item \<in> item_id ` set rows \<longrightarrow> c \<in> set (write_row c rows)"
    unfolding cid [symmetric] by (intro impI write_row_puts)
  have other: "\<forall>r \<in> set rows. item_id r \<noteq> item_id item \<longrightarrow> r \<in> set (write_row c rows)"
    unfolding cid [symmetric] by (intro ballI impI write_row_other)
  have loop: "fst (answers_loop L req (item # items) rows) = fst (answers_loop L req items (write_row c rows))"
    by (rule answers_loop_Cons_saved(1)) (unfold cap, rule s)
  have part2: "(case save_item L c rows of
            Inl e \<Rightarrow> False
          | Inr rows' \<Rightarrow>
              map item_id rows' = map item_id rows \<and>
              (\<forall>r \<in> set rows'. item_id r = item_id item \<longrightarrow> r = c \<and> value_number r = None) \<and>
              (item_id item \<in> item_id ` set rows \<longrightarrow> c \<in> set rows') \<and>
              (\<forall>r \<in> set rows. item_id r \<noteq> item_id item \<longrightarrow> r \<in> set rows') \<and>
              fst (answers_loop L req (item # items) rows) = fst (answers_loop L req items rows'))"
    unfolding s sum.case by (intro conjI ids same puts other loop)
  have part3: "user req \<noteq> None \<and> http_method req = ''POST'' \<and>
          get_param (POST req) ''action'' '''' = ''save_answers'' \<and>
          get_object_or_404 task_id (tasks d) tid = Inr t \<and>
          distinct (map item_id (checklist_items d)) \<and>
          item \<in> set (checklist_items d) \<and> item_task item = tid \<and>
          snd (task_detail L now now2 req tid d) = Inr resp \<longrightarrow>
          c \<in> set (checklist_items (fst (task_detail L now now2 req tid d))) \<and>
          (\<forall>r \<in> set (checklist_items (fst (task_detail L now now2 req tid d))).
             item_id r = item_id item \<longrightarrow> value_number r = None)"
  proof (intro impI, elim conjE)
    assume u: "user req \<noteq> None" and m: "http_method req = ''POST''"
      and act: "get_param (POST req) ''action'' '''' = ''save_answers''"
      and g: "get_object_or_404 task_id (tasks d) tid = Inr t"
      and dk: "distinct (map item_id (checklist_items d))"
      and mem: "item \<in> set (checklist_items d)" and tk: "item_task item = tid"
      and ok: "snd (task_detail L now now2 req tid d) = Inr resp"
    define f where "f = (\<lambda>r. if item_task r = tid then capture_answer L req r else r)"
    have rows: "checklist_items (fst (task_detail L now now2 req tid d)) = map f (checklist_items d)"
      unfolding f_def by (rule task_detail_saved_rows [OF u m g act dk ok])
    have fid: "item_id (f r) = item_id r" for r by (simp add: f_def)
    have fi: "f item = c" using tk cap by (simp add: f_def)
    have "f item \<in> f ` set (checklist_items d)" using mem by (rule imageI)
    then have a: "c \<in> set (map f (checklist_items d))" unfolding fi by simp
    have b: "\<forall>r \<in> set (map f (checklist_items d)). item_id r = item_id item \<longrightarrow> value_number r = None"
    proof (intro ballI impI)
      fix r assume rin: "r \<in> set (map f (checklist_items d))" and id: "item_id r = item_id item"
      have "r = f item" by (rule map_member_same_key [OF dk mem fid rin id])
      then show "value_number r = None" unfolding fi using cv by simp
    qed
    show "c \<in> set (checklist_items (fst (task_detail L now now2 req tid d))) \<and>
          (\<forall>r \<in> set (checklist_items (fst (task_detail L now now2 req tid d))).
             item_id r = item_id item \<longrightarrow> value_number r = None)"
      unfolding rows using a b by (rule conjI)
  qed
  show ?thesis
    unfolding cap using part2 part3 unfolding c_def by (intro conjI refl)
qed

theorem unparsable_number_clears_witness:
  "item_type item_temperatura = ''number'' \<and>
   Decimal example_lib (strip (get_param
       (POST (post [(''action'', ''save_answers''), (''item_1_number'', '' 7 bar ''),
                    (''item_2_yesno'', ''yes''), (''item_4_text'', ''ok'')]))
       (''item_'' @ str_nat (item_id item_temperatura) @ ''_number'') '''')) = None \<and>
   map value_number (checklist_items example_db) = [Some 70, None, None, None] \<and>
   snd (task_detail example_lib 500 501
          (post [(''action'', ''save_answers''), (''item_1_number'', '' 7 bar ''),
                 (''item_2_yesno'', ''yes''), (''item_4_text'', ''ok'')]) 2 example_db) =
     Inr (Redirect_task_detail 2) \<and>
   map (\<lambda>r. (item_id r, value_number r, value_bool r, value_text r))
     (checklist_items (fst (task_detail example_lib 500 501
          (post [(''action'', ''save_answers''), (''item_1_number'', '' 7 bar ''),
                 (''item_2_yesno'', ''yes''), (''item_4_text'', ''ok'')]) 2 example_db))) =
     [(1, None, None, ''''), (2, None, Some True, ''''), (3, None, None, ''''), (4, None, None, ''ok'')] \<and>
   save_item example_lib
     (capture_answer example_lib
        (post [(''action'', ''save_answers''), (''item_1_number'', '' 7 bar ''),
               (''item_2_yesno'', ''yes''), (''item_4_text'', ''ok'')]) item_temperatura)
     (checklist_items example_db) =
     Inr [item_temperatura\<lparr>value_number := None\<rparr>, item_fumi, item_foto, item_commento] \<and>
   item_temperatura\<lparr>value_number := None\<rparr> \<in>
     set (checklist_items (fst (task_detail example_lib 500 501
          (post [(''action'', ''save_answers''), (''item_1_number'', '' 7 bar ''),
                 (''item_2_yesno'', ''yes''), (''item_4_text'', ''ok'')]) 2 example_db))) \<and>
   get_object_or_404 task_id (tasks example_db) 2 = Inr task_sud \<and>
   distinct (map item_id (checklist_items example_db)) \<and>
   item_temperatura \<in> set (checklist_items example_db) \<and> item_task item_temperatura = 2"
proof -
  let ?r = "post [(''action'', ''save_answers''), (''item_1_number'', '' 7 bar ''),
                  (''item_2_yesno'', ''yes''), (''item_4_text'', ''ok'')]"
  have ty: "item_type item_temperatura = ''number''" by (simp add: item_temperatura_def)
  have b2: "Decimal example_lib (strip (get_param (POST ?r)
              (''item_'' @ str_nat (item_id item_temperatura) @ ''_number'') '''')) = None"
    by code_simp
  then have bad: "strip (get_param (POST ?r) (''item_'' @ str_nat (item_id item_temperatura) @ ''_number'') '''') = [] \<or>
             Decimal example_lib (strip (get_param (POST ?r)
               (''item_'' @ str_nat (item_id item_temperatura) @ ''_number'') '''')) = None"
    by (rule disjI2)
  have before: "map value_number (checklist_items example_db) = [Some 70, None, None, None]"
    by code_simp
  have ok: "snd (task_detail example_lib 500 501 ?r 2 example_db) = Inr (Redirect_task_detail 2)"
    by code_simp
  have after: "map (\<lambda>r. (item_id r, value_number r, value_bool r, value_text r))
     (checklist_items (fst (task_detail example_lib 500 501 ?r 2 example_db))) =
     [(1, None, None, ''''), (2, None, Some True, ''''), (3, None, None, ''''), (4, None, None, ''ok'')]"
    by code_simp
  have sv: "save_item example_lib (capture_answer example_lib ?r item_temperatura) (checklist_items example_db) =
     Inr [item_temperatura\<lparr>value_number := None\<rparr>, item_fumi, item_foto, item_commento]"
    by code_simp
  have u: "user ?r \<noteq> None" and m: "http_method ?r = ''POST''" by (simp_all add: post_def)
  have act: "get_param (POST ?r) ''action'' '''' = ''save_answers''" by code_simp
  have g: "get_object_or_404 task_id (tasks example_db) 2 = Inr task_sud" by code_simp
  have dk: "distinct (map item_id (checklist_items example_db))" by code_simp
  have mem: "item_temperatura \<in> set (checklist_items example_db)" by (simp add: example_db_def)
  have tk: "item_task item_temperatura = 2" by (simp add: item_temperatura_def)
  note w = unparsable_number_clears [OF ty refl bad, of "checklist_items example_db" "[]"
             example_db 2 task_sud 500 501 "Redirect_task_detail 2"]
  from w have imp: "user ?r \<noteq> None \<and> http_method ?r = ''POST'' \<and>
          get_param (POST ?r) ''action'' '''' = ''save_answers'' \<and>
          get_object_or_404 task_id (tasks example_db) 2 = Inr task_sud \<and>
          distinct (map item_id (checklist_items example_db)) \<and>
          item_temperatura \<in> set (checklist_items example_db) \<and> item_task item_temperatura = 2 \<and>
          snd (task_detail example_lib 500 501 ?r 2 example_db) = Inr (Redirect_task_detail 2) \<longrightarrow>
          item_temperatura\<lparr>value_number := None\<rparr> \<in>
            set (checklist_items (fst (task_detail example_lib 500 501 ?r 2 example_db))) \<and>
          (\<forall>r \<in> set (checklist_items (fst (task_detail example_lib 500 501 ?r 2 example_db))).
             item_id r = item_id item_temperatura \<longrightarrow> value_number r = None)"
    by (rule conjunct2 [OF conjunct2])
  have stored: "item_temperatura\<lparr>value_number := None\<rparr> \<in>
            set (checklist_items (fst (task_detail example_lib 500 501 ?r 2 example_db))) \<and>
          (\<forall>r \<in> set (checklist_items (fst (task_detail example_lib 500 501 ?r 2 example_db))).
             item_id r = item_id item_temperatura \<longrightarrow> value_number r = None)"
    by (rule mp [OF imp]) (intro conjI u m act g dk mem tk ok)
  show ?thesis
    by (intro conjI ty b2 before ok after sv stored [THEN conjunct1] g dk mem tk)
qed

text \<open>
  Claim C9. If in every checklist item only the value column selected by its type holds
  a value, the same is true after any request to \<^verbatim>\<open>task_detail\<close> (instantiation of a
  template, addition of an item, capture of the answers, also when the request ends
  with an exception) and after any request to \<^verbatim>\<open>task_list\<close> (creation of a task from a
  template). The capture of an answer changes no value column but the one of the
  item's type.
\<close>

theorem writes_keep_value_matching_type:
  assumes "list_all value_matches_type (checklist_items d)"
  shows "list_all value_matches_type (checklist_items (fst (task_detail L now now2 req tid d))) \<and>
         list_all value_matches_type (checklist_items (fst (task_list L now req d))) \<and>
         (item_type item = ''yesno'' \<or> value_bool (capture_answer L req item) = value_bool item) \<and>
         (item_type item = ''number'' \<or> value_number (capture_answer L req item) = value_number item) \<and>
         (item_type item = ''text'' \<or> value_text (capture_answer L req item) = value_text item) \<and>
         (item_type item = ''photo'' \<or> attachment (capture_answer L req item) = attachment item)"
proof -
  have "(item_type item = ''yesno'' \<or> value_bool (capture_answer L req item) = value_bool item) \<and>
         (item_type item = ''number'' \<or> value_number (capture_answer L req item) = value_number item) \<and>
         (item_type item = ''text'' \<or> value_text (capture_answer L req item) = value_text item) \<and>
         (item_type item = ''photo'' \<or> attachment (capture_answer L req item) = attachment item)"
    by (simp add: capture_answer_def Let_def split: option.split)
  then show ?thesis
    using task_detail_matches [OF assms] task_list_matches [OF assms] by simp
qed

theorem writes_keep_value_matching_type_witness:
  "list_all value_matches_type (checklist_items example_db) \<and>
   list_all value_matches_type (checklist_items (fst (task_detail example_lib 500 501
      (post [(''action'', ''save_answers''), (''item_1_number'', ''12''), (''item_2_yesno'', ''no''),
             (''item_4_text'', '' fatto '')])
      2 example_db))) \<and>
   list_all value_matches_type (checklist_items (fst (task_detail example_lib 500 501
      (post [(''action'', ''add_checklist_item''), (''label'', ''Rumore''), (''item_type'', ''text'')])
      2 example_db))) \<and>
   list_all value_matches_type (checklist_items (fst (task_list example_lib 500
      (post [(''action'', ''create_task''), (''title'', ''Nuovo''), (''site_id'', ''1''), (''template_id'', ''1'')])
      example_db))) \<and>
   length (checklist_items (fst (task_list example_lib 500
      (post [(''action'', ''create_task''), (''title'', ''Nuovo''), (''site_id'', ''1''), (''template_id'', ''1'')])
      example_db))) = 6"
proof -
  have inv: "list_all value_matches_type (checklist_items example_db)" by code_simp
  have n: "length (checklist_items (fst (task_list example_lib 500
      (post [(''action'', ''create_task''), (''title'', ''Nuovo''), (''site_id'', ''1''), (''template_id'', ''1'')])
      example_db))) = 6" by code_simp
  note w = writes_keep_value_matching_type [OF inv]
  from w [THEN conjunct1] w [THEN conjunct2, THEN conjunct1] inv n show ?thesis by blast
qed

text \<open>
  Claim C10. A submission of answers that the view accepts rewrites every checklist
  item of the task, and no other row: each row of the task becomes what the capture
  makes of it. For an item of type \<^verbatim>\<open>yesno\<close>, \<^verbatim>\<open>number\<close> or \<^verbatim>\<open>text\<close> whose field is
  missing from the form this is the item with its answer unset or empty; an item of
  type \<^verbatim>\<open>photo\<close> without an upload stays as it is. The rows have distinct keys.
\<close>

theorem save_answers_rewrites_batch:
  assumes u: "user req \<noteq> None" and m: "http_method req = ''POST''"
    and g: "get_object_or_404 task_id (tasks d) tid = Inr t"
    and act: "get_param (POST req) ''action'' '''' = ''save_answers''"
    and dk: "distinct (map item_id (checklist_items d))"
    and ok: "snd (task_detail L now now2 req tid d) = Inr resp"
  shows "checklist_items (fst (task_detail L now now2 req tid d)) =
           map (\<lambda>r. if item_task r = tid then capture_answer L req r else r) (checklist_items d) \<and>
         (\<forall>r. item_type r = ''yesno'' \<and> POST req (''item_'' @ str_nat (item_id r) @ ''_yesno'') = None \<longrightarrow>
              capture_answer L req r = r\<lparr>value_bool := None\<rparr>) \<and>
         (\<forall>r. item_type r = ''number'' \<and> POST req (''item_'' @ str_nat (item_id r) @ ''_number'') = None \<longrightarrow>
              capture_answer L req r = r\<lparr>value_number := None\<rparr>) \<and>
         (\<forall>r. item_type r = ''text'' \<and> POST req (''item_'' @ str_nat (item_id r) @ ''_text'') = None \<longrightarrow>
              capture_answer L req r = r\<lparr>value_text := ''''\<rparr>) \<and>
         (\<forall>r. item_type r = ''photo'' \<and> FILES req (''item_'' @ str_nat (item_id r) @ ''_photo'') = None \<longrightarrow>
              capture_answer L req r = r)"
proof -
  have k: "task_id t = tid" using g by (rule get_object_task_id)
  note eq = task_detail_save_answers [OF u m g act]
  from ok have ok': "snd (save_answers L now now2 req t d) = Inr resp" unfolding eq .
  from save_answers_ok_loop [OF ok'] obtain items1 where
    loop: "answers_loop L req (filter (\<lambda>i. item_task i = task_id t) (checklist_items d)) (checklist_items d) =
           (checklist_items (fst (save_answers L now now2 req t d)), Inr items1)" ..
  have rows: "checklist_items (fst (task_detail L now now2 req tid d)) =
           map (\<lambda>r. if item_task r = tid then capture_answer L req r else r) (checklist_items d)"
    unfolding eq using answers_loop_filter [OF dk loop] unfolding k .
  show ?thesis
    using rows capture_absent_yesno capture_absent_number capture_absent_text capture_absent_photo
    by blast
qed

theorem save_answers_rewrites_batch_witness:
  "distinct (map item_id (checklist_items example_db)) \<and>
   snd (task_detail example_lib 500 501 (post [(''action'', ''save_answers'')]) 2 example_db) =
     Inr (Redirect_task_detail 2) \<and>
   checklist_items (fst (task_detail example_lib 500 501 (post [(''action'', ''save_answers'')]) 2 example_db)) =
     [item_temperatura\<lparr>value_number := None\<rparr>, item_fumi\<lparr>value_bool := None\<rparr>, item_foto,
      item_commento\<lparr>value_text := ''''\<rparr>]"
proof -
  let ?r = "post [(''action'', ''save_answers'')]"
  have g: "get_object_or_404 task_id (tasks example_db) 2 = Inr task_sud" by code_simp
  have u: "user ?r \<noteq> None" and m: "http_method ?r = ''POST''" by (simp_all add: post_def)
  have act: "get_param (POST ?r) ''action'' '''' = ''save_answers''" by code_simp
  have dk: "distinct (map item_id (checklist_items example_db))" by code_simp
  have ok: "snd (task_detail example_lib 500 501 ?r 2 example_db) = Inr (Redirect_task_detail 2)"
    by code_simp
  from save_answers_rewrites_batch [OF u m g act dk ok]
  have "checklist_items (fst (task_detail example_lib 500 501 ?r 2 example_db)) =
        map (\<lambda>r. if item_task r = 2 then capture_answer example_lib ?r r else r) (checklist_items example_db)"
    by (rule conjunct1)
  also have "\<dots> = [item_temperatura\<lparr>value_number := None\<rparr>, item_fumi\<lparr>value_bool := None\<rparr>, item_foto,
      item_commento\<lparr>value_text := ''''\<rparr>]"
    by code_simp
  finally show ?thesis using dk ok by simp
qed

section \<open>Checklist instantiation: the snapshot\<close>

lemma map2_set_id_columns:
  "length ks = length items \<Longrightarrow>
   map snapshot_columns (map2 (\<lambda>k it. it\<lparr>item_id := k\<rparr>) ks items) = map snapshot_columns items"
  by (induction ks items rule: list_induct2) (simp_all add: snapshot_columns_def)

lemma map2_set_id_task:
  "length ks = length items \<Longrightarrow>
   map item_task (map2 (\<lambda>k it. it\<lparr>item_id := k\<rparr>) ks items) = map item_task items"
  by (induction ks items rule: list_induct2) simp_all

lemma map2_set_id_keys:
  "length ks = length items \<Longrightarrow>
   map item_id (map2 (\<lambda>k it. it\<lparr>item_id := k\<rparr>) ks items) = ks"
  by (induction ks items rule: list_induct2) simp_all

lemma create_checklist_rows:
  "checklist_items (create_checklist_from_template task template asset d) =
   checklist_items d @
   map2 (\<lambda>k it. it\<lparr>item_id := k\<rparr>)
     [fresh_id item_id (checklist_items d) ..<
      fresh_id item_id (checklist_items d) + length (template_items_all d template)]
     (map (snapshot task asset) (template_items_all d template))"
  by (simp add: create_checklist_from_template_def Let_def bulk_create_def)

lemma snapshot_copies: "snapshot_columns (snapshot task asset item) = template_columns item"
  by (simp add: snapshot_columns_def template_columns_def snapshot_def)

lemma snapshot_task: "item_task (snapshot task asset item) = task_id task"
  by (simp add: snapshot_def)

lemma create_checklist_frame:
  "template_items (create_checklist_from_template task template asset d) = template_items d"
  by (simp add: create_checklist_from_template_def Let_def)

text \<open>
  Claim C5. Instantiating a template on a task leaves the rows that exist as they are
  and appends one checklist item per item of the template, all on that task: their
  labels, types, required flags and units are those of the template's items, read in
  the order of the template (ascending \<^verbatim>\<open>order\<close>, then ascending key), their keys
  ascend in that order, and the items read are exactly the rows of the template. Changing or deleting a template item
  afterwards changes none of these four columns in any checklist item.
\<close>

theorem template_snapshot:
  "(let its = template_items_all d template;
        d1 = create_checklist_from_template task template asset d;
        new = drop (length (checklist_items d)) (checklist_items d1)
    in take (length (checklist_items d)) (checklist_items d1) = checklist_items d \<and>
       map snapshot_columns new = map template_columns its \<and>
       map item_id new = [fresh_id item_id (checklist_items d) ..<
                          fresh_id item_id (checklist_items d) + length its] \<and>
       map item_task new = replicate (length its) (task_id task) \<and>
       mset its = mset (filter (\<lambda>i. ti_template i = template_id template) (template_items d)) \<and>
       sorted (map (\<lambda>i. (ti_order i, ti_id i)) its) \<and>
       map snapshot_columns (checklist_items (admin_change_template_item k form d1)) =
         map snapshot_columns (checklist_items d1) \<and>
       map snapshot_columns (checklist_items (admin_delete_template_item k d1)) =
         map snapshot_columns (checklist_items d1))"
proof -
  let ?its = "template_items_all d template"
  let ?n = "fresh_id item_id (checklist_items d)"
  let ?new = "map2 (\<lambda>k it. it\<lparr>item_id := k\<rparr>) [?n ..< ?n + length ?its] (map (snapshot task asset) ?its)
              :: 'a TaskChecklistItem list"
  have len: "length [?n ..< ?n + length ?its] = length (map (snapshot task asset) ?its :: 'a TaskChecklistItem list)"
    by simp
  have cols: "map snapshot_columns ?new = map template_columns ?its"
    unfolding map2_set_id_columns [OF len] by (simp add: snapshot_copies)
  have keys: "map item_id ?new = [?n ..< ?n + length ?its]"
    by (rule map2_set_id_keys [OF len])
  have tsk: "map item_task ?new = replicate (length ?its) (task_id task)"
    unfolding map2_set_id_task [OF len] by (simp add: snapshot_task comp_def map_replicate_const)
  have ms: "mset ?its = mset (filter (\<lambda>i. ti_template i = template_id template) (template_items d))"
    by (simp add: template_items_all_def)
  have so: "sorted (map (\<lambda>i. (ti_order i, ti_id i)) ?its)"
    unfolding template_items_all_def by (rule sorted_sort_key)
  have ch: "map snapshot_columns (checklist_items (admin_change_template_item k form d1)) =
         map snapshot_columns (checklist_items d1)" for d1 :: "'a db"
    by (simp add: admin_change_template_item_def)
  have de: "map snapshot_columns (checklist_items (admin_delete_template_item k d1)) =
         map snapshot_columns (checklist_items d1)" for d1 :: "'a db"
    by (simp add: admin_delete_template_item_def snapshot_columns_def comp_def)
  have rows: "checklist_items (create_checklist_from_template task template asset d) = checklist_items d @ ?new"
    by (rule create_checklist_rows)
  have tk: "take (length (checklist_items d)) (checklist_items (create_checklist_from_template task template asset d)) =
            checklist_items d"
    unfolding rows by simp
  have dr: "drop (length (checklist_items d)) (checklist_items (create_checklist_from_template task template asset d)) = ?new"
    unfolding rows by simp
  show ?thesis
    unfolding Let_def dr
    by (intro conjI tk cols keys tsk ms so ch de)
qed

theorem template_snapshot_witness:
  "map ti_label (template_items_all example_db template_nord) = [''Perdite'', ''Pressione''] \<and>
   map snapshot_columns (drop (length (checklist_items example_db))
      (checklist_items (create_checklist_from_template task_nord template_nord None example_db))) =
     [(''Perdite'', ''yesno'', False, ''''), (''Pressione'', ''number'', True, ''bar'')] \<and>
   map snapshot_columns (checklist_items (admin_delete_template_item 1
      (create_checklist_from_template task_nord template_nord None example_db))) =
   map snapshot_columns (checklist_items (create_checklist_from_template task_nord template_nord None example_db))"
proof -
  have its: "map ti_label (template_items_all example_db template_nord) = [''Perdite'', ''Pressione'']"
    by code_simp
  have cols: "map template_columns (template_items_all example_db template_nord) =
     [(''Perdite'', ''yesno'', False, ''''), (''Pressione'', ''number'', True, ''bar'')]"
    by code_simp
  note w = template_snapshot [of example_db template_nord task_nord None 1 titem_note, unfolded Let_def]
  from w [THEN conjunct2, THEN conjunct1] cols
  have a: "map snapshot_columns (drop (length (checklist_items example_db))
      (checklist_items (create_checklist_from_template task_nord template_nord None example_db))) =
     [(''Perdite'', ''yesno'', False, ''''), (''Pressione'', ''number'', True, ''bar'')]" by simp
  from w have b: "map snapshot_columns (checklist_items (admin_delete_template_item 1
      (create_checklist_from_template task_nord template_nord None example_db))) =
   map snapshot_columns (checklist_items (create_checklist_from_template task_nord template_nord None example_db))"
    by blast
  show ?thesis using its a b by blast
qed

text \<open>
  Claim C1 fails on the path that instantiates a template on an existing task. The
  template 1 belongs to site 1 and the task 2 to site 2: the form
  \<^verbatim>\<open>generate_checklist\<close> of \<^verbatim>\<open>task_detail\<close> is answered by the redirection and has put the
  two items of the template on the task. The same template posted to \<^verbatim>\<open>task_list\<close> with
  a new task of site 2 creates the task and no item.
\<close>

theorem template_of_other_site_on_existing_task:
  "template_site template_nord = Some 1 \<and> task_site task_sud = 2 \<and>
   get_object_or_404 task_id (tasks example_db) 2 = Inr task_sud \<and>
   get_object_or_404_str template_id (templates example_db) ''1'' = Inr template_nord \<and>
   snd (task_detail example_lib 500 501
          (post [(''action'', ''generate_checklist''), (''template_id'', ''1'')]) 2 example_db) =
     Inr (Redirect_task_detail 2) \<and>
   map (\<lambda>i. (item_task i, label_snapshot i))
     (drop (length (checklist_items example_db))
        (checklist_items (fst (task_detail example_lib 500 501
          (post [(''action'', ''generate_checklist''), (''template_id'', ''1'')]) 2 example_db)))) =
     [(2, ''Perdite''), (2, ''Pressione'')] \<and>
   checklist_items (fst (task_list example_lib 500
          (post [(''action'', ''create_task''), (''title'', ''Nuovo''), (''site_id'', ''2''),
                 (''template_id'', ''1'')]) example_db)) =
     checklist_items example_db \<and>
   map (\<lambda>t. (task_id t, task_site t)) (tasks (fst (task_list example_lib 500
          (post [(''action'', ''create_task''), (''title'', ''Nuovo''), (''site_id'', ''2''),
                 (''template_id'', ''1'')]) example_db))) =
     [(1, 1), (2, 2), (3, 2)]"
  by code_simp

section \<open>Closing a task: the report\<close>

lemma build_report_empty:
  assumes "filter (\<lambda>s. site_id s = task_site t) (sites d) \<noteq> []"
  shows "\<exists>doc. build_task_report_pdf L now d t [] = Inr doc \<and>
               Wrapped ''Nessuna voce in checklist.'' \<in> set doc"
proof -
  from assms obtain s ss where f: "filter (\<lambda>s. site_id s = task_site t) (sites d) = s # ss"
    by (cases "filter (\<lambda>s. site_id s = task_site t) (sites d)") auto
  show ?thesis
    unfolding build_task_report_pdf_def f list.case Let_def checklist_entries.simps sum.case if_P [OF refl]
    by simp
qed

text \<open>
  Claim C6. Closing a task that has no checklist item (the form \<^verbatim>\<open>save_answers\<close> with
  \<^verbatim>\<open>close_task\<close> set), the site of the task being in the database, is answered by the
  redirection to the page of the task; the stored task is then \<^verbatim>\<open>done\<close> and carries a
  report, stored under the name of the task's report, in which the line
  \<^verbatim>\<open>Nessuna voce in checklist.\<close> is drawn.
\<close>

theorem close_without_items:
  assumes u: "user req \<noteq> None" and m: "http_method req = ''POST''"
    and g: "get_object_or_404 task_id (tasks d) tid = Inr t"
    and act: "get_param (POST req) ''action'' '''' = ''save_answers''"
    and c: "POST req ''close_task'' = Some ''1''"
    and none: "filter (\<lambda>i. item_task i = tid) (checklist_items d) = []"
    and site: "filter (\<lambda>s. site_id s = task_site t) (sites d) \<noteq> []"
  shows "snd (task_detail L now now2 req tid d) = Inr (Redirect_task_detail tid) \<and>
         (\<exists>t' doc. get_object_or_404 task_id (tasks (fst (task_detail L now now2 req tid d))) tid = Inr t' \<and>
                   task_status t' = ''done'' \<and>
                   report_pdf t' = Some (report_filename tid, doc) \<and>
                   Wrapped ''Nessuna voce in checklist.'' \<in> set doc)"
proof -
  have k: "task_id t = tid" using g by (rule get_object_task_id)
  have g1: "get_object_or_404 task_id (tasks d) (task_id t) = Inr t" using g k by simp
  note eq = task_detail_save_answers [OF u m g act]
  have loop: "answers_loop L req (filter (\<lambda>i. item_task i = task_id t) (checklist_items d)) (checklist_items d) =
              (checklist_items d, Inr [])"
    unfolding k none by simp
  have dd: "d\<lparr>checklist_items := checklist_items d\<rparr> = d" by simp
  show ?thesis
  proof (cases "task_status t \<noteq> ''done'' \<or> completed_at t = None")
    case cc: True
    have "filter (\<lambda>s. site_id s = task_site (t\<lparr>completed_at := Some now\<rparr>)) (sites d) \<noteq> []"
      using site by simp
    from build_report_empty [OF this] obtain doc where
      b: "build_task_report_pdf L now2 d (t\<lparr>completed_at := Some now\<rparr>) [] = Inr doc"
      and mk: "Wrapped ''Nessuna voce in checklist.'' \<in> set doc" by blast
    from b have b': "build_task_report_pdf L now2 (d\<lparr>checklist_items := checklist_items d\<rparr>)
                       (t\<lparr>completed_at := Some now\<rparr>) [] = Inr doc" unfolding dd .
    have r: "snd (save_answers L now now2 req t d) = Inr (Redirect_task_detail (task_id t))"
      unfolding save_answers_close_stamp [OF loop c cc b'] by simp
    note row = close_row_stamp [OF g1 loop c cc b']
    have "get_object_or_404 task_id (tasks (fst (task_detail L now now2 req tid d))) tid =
            Inr (t\<lparr>task_status := ''done'', report_pdf := Some (report_filename tid, doc),
                   completed_at := Some now\<rparr>) \<and>
          task_status (t\<lparr>task_status := ''done'', report_pdf := Some (report_filename tid, doc),
                   completed_at := Some now\<rparr>) = ''done'' \<and>
          report_pdf (t\<lparr>task_status := ''done'', report_pdf := Some (report_filename tid, doc),
                   completed_at := Some now\<rparr>) = Some (report_filename tid, doc) \<and>
          Wrapped ''Nessuna voce in checklist.'' \<in> set doc"
      unfolding eq using row mk unfolding k by simp
    then have "\<exists>t' doc. get_object_or_404 task_id (tasks (fst (task_detail L now now2 req tid d))) tid = Inr t' \<and>
                   task_status t' = ''done'' \<and>
                   report_pdf t' = Some (report_filename tid, doc) \<and>
                   Wrapped ''Nessuna voce in checklist.'' \<in> set doc"
      by (intro exI [of _ "t\<lparr>task_status := ''done'', report_pdf := Some (report_filename tid, doc),
                   completed_at := Some now\<rparr>"] exI [of _ doc])
    then show ?thesis unfolding eq using r k by simp
  next
    case cc: False
    from build_report_empty [OF site] obtain doc where
      b: "build_task_report_pdf L now2 d t [] = Inr doc"
      and mk: "Wrapped ''Nessuna voce in checklist.'' \<in> set doc" by blast
    from b have b': "build_task_report_pdf L now2 (d\<lparr>checklist_items := checklist_items d\<rparr>) t [] = Inr doc"
      unfolding dd .
    have r: "snd (save_answers L now now2 req t d) = Inr (Redirect_task_detail (task_id t))"
      unfolding save_answers_close_keep [OF loop c cc b'] by simp
    note row = close_row_keep [OF g1 loop c cc b']
    have "get_object_or_404 task_id (tasks (fst (task_detail L now now2 req tid d))) tid =
            Inr (t\<lparr>task_status := ''done'', report_pdf := Some (report_filename tid, doc),
                   completed_at := completed_at t\<rparr>) \<and>
          task_status (t\<lparr>task_status := ''done'', report_pdf := Some (report_filename tid, doc),
                   completed_at := completed_at t\<rparr>) = ''done'' \<and>
          report_pdf (t\<lparr>task_status := ''done'', report_pdf := Some (report_filename tid, doc),
                   completed_at := completed_at t\<rparr>) = Some (report_filename tid, doc) \<and>
          Wrapped ''Nessuna voce in checklist.'' \<in> set doc"
      unfolding eq using row mk unfolding k by simp
    then have "\<exists>t' doc. get_object_or_404 task_id (tasks (fst (task_detail L now now2 req tid d))) tid = Inr t' \<and>
                   task_status t' = ''done'' \<and>
                   report_pdf t' = Some (report_filename tid, doc) \<and>
                   Wrapped ''Nessuna voce in checklist.'' \<in> set doc"
      by (intro exI [of _ "t\<lparr>task_status := ''done'', report_pdf := Some (report_filename tid, doc),
                   completed_at := completed_at t\<rparr>"] exI [of _ doc])
    then show ?thesis unfolding eq using r k by simp
  qed
qed

theorem close_without_items_witness:
  "filter (\<lambda>i. item_task i = 1) (checklist_items example_db) = [] \<and>
   snd (task_detail example_lib 500 501 (post [(''action'', ''save_answers''), (''close_task'', ''1'')]) 1 example_db) =
     Inr (Redirect_task_detail 1) \<and>
   map task_status (tasks (fst (task_detail example_lib 500 501
       (post [(''action'', ''save_answers''), (''close_task'', ''1'')]) 1 example_db))) = [''done'', ''done''] \<and>
   (\<exists>t' doc. get_object_or_404 task_id (tasks (fst (task_detail example_lib 500 501
                  (post [(''action'', ''save_answers''), (''close_task'', ''1'')]) 1 example_db))) 1 = Inr t' \<and>
             task_status t' = ''done'' \<and>
             report_pdf t' = Some (report_filename 1, doc) \<and>
             Wrapped ''Nessuna voce in checklist.'' \<in> set doc)"
proof -
  let ?r = "post [(''action'', ''save_answers''), (''close_task'', ''1'')]"
  have g: "get_object_or_404 task_id (tasks example_db) 1 = Inr task_nord" by code_simp
  have u: "user ?r \<noteq> None" and m: "http_method ?r = ''POST''" by (simp_all add: post_def)
  have act: "get_param (POST ?r) ''action'' '''' = ''save_answers''" by code_simp
  have c: "POST ?r ''close_task'' = Some ''1''" by code_simp
  have none: "filter (\<lambda>i. item_task i = 1) (checklist_items example_db) = []" by code_simp
  have site: "filter (\<lambda>s. site_id s = task_site task_nord) (sites example_db) \<noteq> []" by code_simp
  have st: "map task_status (tasks (fst (task_detail example_lib 500 501 ?r 1 example_db))) = [''done'', ''done'']"
    by code_simp
  note w = close_without_items [OF u m g act c none site, of example_lib 500 501]
  show ?thesis using none st w by blast
qed

section \<open>The list of assets\<close>

lemma strip_sublist: "sublist (strip s) s"
proof -
  have "suffix (dropWhile isspace (rev (dropWhile isspace s))) (rev (dropWhile isspace s))"
    by (rule suffix_dropWhile)
  then have "prefix (strip s) (dropWhile isspace s)"
    unfolding strip_def by (simp add: suffix_to_prefix)
  then have a: "sublist (strip s) (dropWhile isspace s)" by (rule prefix_imp_sublist)
  have b: "sublist (dropWhile isspace s) s" by (rule suffix_imp_sublist [OF suffix_dropWhile])
  from a b show ?thesis by (rule sublist_order.order_trans)
qed

lemma icontains_strip: "icontains f q \<Longrightarrow> icontains f (strip q)"
  unfolding icontains_def lower_def
  using map_mono_sublist [OF strip_sublist, of lower_char q] sublist_order.order_trans by blast

lemma asset_matches_strip:
  assumes "asset_matches q (a, s)"
  shows "asset_matches (strip q) (a, s)"
  using assms unfolding asset_matches_def by (auto intro: icontains_strip)

lemma asset_list_query_member:
  assumes a: "a \<in> set (assets d)" and s: "s \<in> set (sites d)" and j: "site_id s = asset_site a"
    and st: "strip (get_param (GET req) ''status'' '''') = [] \<or>
             strip (get_param (GET req) ''status'' '''') = asset_status a"
    and hit: "asset_matches (get_param (GET req) ''q'' '''') (a, s)"
  shows "a \<in> set (asset_list_query req d)"
proof -
  let ?joined = "concat (map (\<lambda>a. map (\<lambda>s. (a, s)) (filter (\<lambda>s. site_id s = asset_site a) (sites d))) (assets d))"
  let ?sf = "strip (get_param (GET req) ''status'' '''')"
  let ?q = "strip (get_param (GET req) ''q'' '''')"
  let ?a1 = "if ?sf \<noteq> [] then filter (\<lambda>r. asset_status (fst r) = ?sf) ?joined else ?joined"
  let ?a2 = "if ?q \<noteq> [] then filter (asset_matches ?q) ?a1 else ?a1"
  have 0: "(a, s) \<in> set ?joined" using a s j by auto
  have 1: "(a, s) \<in> set ?a1" using 0 st by auto
  have m: "asset_matches ?q (a, s)" using hit by (rule asset_matches_strip)
  have 2: "(a, s) \<in> set ?a2" using 1 m by simp
  have "a \<in> fst ` set ?a2" using 2 by (rule image_eqI [rotated]) simp
  then show ?thesis unfolding asset_list_query_def Let_def by simp
qed

text \<open>
  Claim C7. An asset whose site is in the database and whose status passes the status
  filter (no status asked for, or its own) is in the list that \<^verbatim>\<open>asset_list\<close> shows
  whenever the query is, letter case apart, a substring of the asset's name, type,
  serial or vendor or of the name of its site. This holds for the query as it is
  typed, which the view reads with the surrounding white space removed.
\<close>

theorem asset_list_free_text:
  assumes u: "user req \<noteq> None"
    and a: "a \<in> set (assets d)" and s: "s \<in> set (sites d)" and j: "site_id s = asset_site a"
    and st: "strip (get_param (GET req) ''status'' '''') = [] \<or>
             strip (get_param (GET req) ''status'' '''') = asset_status a"
    and q: "q = get_param (GET req) ''q'' ''''"
    and hit: "icontains (asset_name a) q \<or> icontains (asset_type a) q \<or> icontains (asset_serial a) q \<or>
              icontains (asset_vendor a) q \<or> icontains (site_name s) q"
  shows "asset_list req d = (d, Inr (Assets_page (asset_list_query req d))) \<and>
         a \<in> set (asset_list_query req d)"
proof -
  have m: "asset_matches (get_param (GET req) ''q'' '''') (a, s)"
    using hit unfolding q asset_matches_def by auto
  have v: "asset_list req d = (d, Inr (Assets_page (asset_list_query req d)))"
    using u by (auto simp: asset_list_def login_required_def)
  show ?thesis using v asset_list_query_member [OF a s j st m] by simp
qed

theorem asset_list_free_text_witness:
  "\<not> icontains (asset_name asset_pompa) '' NORD '' \<and> \<not> icontains (asset_name asset_pompa) ''nord'' \<and>
   \<not> icontains (asset_type asset_pompa) ''nord'' \<and> \<not> icontains (asset_serial asset_pompa) ''nord'' \<and>
   \<not> icontains (asset_vendor asset_pompa) ''nord'' \<and> icontains (site_name site_nord) ''nord'' \<and>
   asset_list_query (page [(''q'', ''nord'')]) example_db = [asset_pompa] \<and>
   asset_pompa \<in> set (asset_list_query (page [(''q'', ''nord'')]) example_db)"
proof -
  let ?r = "page [(''q'', ''nord'')]"
  have u: "user ?r \<noteq> None" by (simp add: page_def)
  have a: "asset_pompa \<in> set (assets example_db)" by (simp add: example_db_def)
  have s: "site_nord \<in> set (sites example_db)" by (simp add: example_db_def)
  have j: "site_id site_nord = asset_site asset_pompa" by code_simp
  have st: "strip (get_param (GET ?r) ''status'' '''') = [] \<or>
             strip (get_param (GET ?r) ''status'' '''') = asset_status asset_pompa" by code_simp
  have q: "''nord'' = get_param (GET ?r) ''q'' ''''" by code_simp
  have h: "icontains (site_name site_nord) ''nord''" by code_simp
  have hit: "icontains (asset_name asset_pompa) ''nord'' \<or> icontains (asset_type asset_pompa) ''nord'' \<or>
             icontains (asset_serial asset_pompa) ''nord'' \<or> icontains (asset_vendor asset_pompa) ''nord'' \<or>
             icontains (site_name site_nord) ''nord''" using h by simp
  have n: "\<not> icontains (asset_name asset_pompa) '' NORD '' \<and> \<not> icontains (asset_name asset_pompa) ''nord'' \<and>
   \<not> icontains (asset_type asset_pompa) ''nord'' \<and> \<not> icontains (asset_serial asset_pompa) ''nord'' \<and>
   \<not> icontains (asset_vendor asset_pompa) ''nord''" by code_simp
  have l: "asset_list_query ?r example_db = [asset_pompa]" by code_simp
  note w = asset_list_free_text [OF u a s j st q hit]
  show ?thesis using n h l w by blast
qed

section \<open>The tokens of the assets\<close>

lemma update_task_assets: "assets (fst (update_task now req task d)) = assets d"
  by (simp add: update_task_def Let_def)

lemma create_checklist_assets: "assets (create_checklist_from_template task template asset d) = assets d"
  by (simp add: create_checklist_from_template_def Let_def)

lemma generate_checklist_assets: "assets (fst (generate_checklist req task d)) = assets d"
  by (simp add: generate_checklist_def Let_def create_checklist_assets split: sum.split)

lemma add_checklist_item_assets: "assets (fst (add_checklist_item req task d)) = assets d"
  by (simp add: add_checklist_item_def Let_def split: sum.split)

lemma save_answers_assets: "assets (fst (save_answers L now now2 req t d)) = assets d"
proof -
  obtain rows res where loop:
    "answers_loop L req (filter (\<lambda>i. item_task i = task_id t) (checklist_items d)) (checklist_items d) = (rows, res)"
    by (cases "answers_loop L req (filter (\<lambda>i. item_task i = task_id t) (checklist_items d)) (checklist_items d)")
  show ?thesis
  proof (cases res)
    case (Inl e)
    show ?thesis unfolding save_answers_error [OF loop [unfolded Inl]] by simp
  next
    case (Inr items1)
    note loop1 = loop [unfolded Inr]
    show ?thesis
    proof (cases "POST req ''close_task'' = Some ''1''")
      case False
      show ?thesis unfolding save_answers_open [OF loop1 False] by simp
    next
      case c: True
      let ?t1 = "if task_status t \<noteq> ''done'' \<or> completed_at t = None then t\<lparr>completed_at := Some now\<rparr> else t"
      show ?thesis
      proof (cases "build_task_report_pdf L now2 (d\<lparr>checklist_items := rows\<rparr>) ?t1 items1")
        case (Inl e)
        show ?thesis unfolding save_answers_report_error [OF loop1 c Inl] by simp
      next
        case b: (Inr doc)
        show ?thesis
        proof (cases "task_status t \<noteq> ''done'' \<or> completed_at t = None")
          case cc: True
          note b1 = b [unfolded if_P [OF cc]]
          show ?thesis unfolding save_answers_close_stamp [OF loop1 c cc b1] by simp
        next
          case cc: False
          note b1 = b [unfolded if_not_P [OF cc]]
          show ?thesis unfolding save_answers_close_keep [OF loop1 c cc b1] by simp
        qed
      qed
    qed
  qed
qed

lemma task_detail_assets: "assets (fst (task_detail L now now2 req tid d)) = assets d"
  by (simp add: task_detail_def login_required_def Let_def update_task_assets
      generate_checklist_assets add_checklist_item_assets save_answers_assets split: sum.split)

lemma create_task_assets:
  assumes "create_task L now req d = Some out"
  shows "assets (fst out) = assets d"
  using assms
  by (auto simp: create_task_def Let_def create_checklist_assets split: if_splits sum.splits option.splits)

lemma task_list_assets: "assets (fst (task_list L now req d)) = assets d"
  using create_task_assets [of L now req d]
  by (simp add: task_list_def login_required_def split: option.split)

lemma dashboard_assets: "assets (fst (dashboard req d)) = assets d"
  by (simp add: dashboard_def login_required_def Let_def split: sum.split)

lemma asset_list_assets: "assets (fst (asset_list req d)) = assets d"
  by (simp add: asset_list_def login_required_def)

lemma admin_change_asset_tokens:
  "map (\<lambda>a. (asset_id a, qr_token a)) (assets (admin_change_asset k form d)) =
   map (\<lambda>a. (asset_id a, qr_token a)) (assets d)"
  by (simp add: admin_change_asset_def comp_def)

lemma perform_tokens:
  assumes "distinct (map qr_token (assets d))"
  shows "distinct (map qr_token (assets (perform L op d))) \<and>
         prefix (map (\<lambda>a. (asset_id a, qr_token a)) (assets d))
                (map (\<lambda>a. (asset_id a, qr_token a)) (assets (perform L op d)))"
proof (cases op)
  case (Task_detail now now2 req tid)
  then show ?thesis using assms by (simp add: task_detail_assets)
next
  case (Task_list now req)
  then show ?thesis using assms by (simp add: task_list_assets)
next
  case (Dashboard req)
  then show ?thesis using assms by (simp add: dashboard_assets)
next
  case (Asset_list req)
  then show ?thesis using assms by (simp add: asset_list_assets)
next
  case (Admin_add_asset form token)
  then show ?thesis using assms by (simp add: admin_add_asset_def)
next
  case (Admin_change_asset k form)
  have "map qr_token (assets (admin_change_asset k form d)) = map qr_token (assets d)"
    using arg_cong [OF admin_change_asset_tokens, of "map snd" k form d] by (simp add: comp_def)
  then show ?thesis using assms Admin_change_asset by (simp add: admin_change_asset_tokens)
next
  case (Admin_change_template_item k form)
  then show ?thesis using assms by (simp add: admin_change_template_item_def)
next
  case (Admin_delete_template_item k)
  then show ?thesis using assms by (simp add: admin_delete_template_item_def)
qed

text \<open>
  Claim C8. The token of a new asset is the value drawn for it at construction (any
  value: the draw is an input of the operation) and is accepted only when no asset
  holds it. Starting from assets with distinct tokens, after any sequence of
  operations the tokens are distinct, and the list of the pairs of key and token of
  the assets has only grown at its end: every asset has the token it was given, and
  no view and no form has changed or redrawn it.
\<close>

theorem asset_tokens_stable:
  assumes "distinct (map qr_token (assets d))"
  shows "distinct (map qr_token (assets (run L ops d))) \<and>
         prefix (map (\<lambda>a. (asset_id a, qr_token a)) (assets d))
                (map (\<lambda>a. (asset_id a, qr_token a)) (assets (run L ops d)))"
  using assms unfolding run_def
proof (induction ops arbitrary: d)
  case Nil
  then show ?case by simp
next
  case (Cons op ops)
  note st = perform_tokens [OF Cons.prems, of L op]
  note ih = Cons.IH [OF st [THEN conjunct1]]
  from ih have "distinct (map qr_token (assets (fold (perform L) (op # ops) d)))" by simp
  moreover from st ih
  have "prefix (map (\<lambda>a. (asset_id a, qr_token a)) (assets d))
               (map (\<lambda>a. (asset_id a, qr_token a)) (assets (fold (perform L) (op # ops) d)))"
    using prefix_order.order_trans by fastforce
  ultimately show ?case by simp
qed

theorem asset_tokens_stable_witness:
  "distinct (map qr_token (assets example_db)) \<and>
   map (\<lambda>a. (asset_id a, qr_token a)) (assets example_db) = [(1, 1001), (2, 1002)] \<and>
   map (\<lambda>a. (asset_id a, qr_token a)) (assets (run example_lib
     [Admin_add_asset asset_serra 1001, Admin_add_asset asset_serra 2000,
      Admin_change_asset 1 (asset_serra\<lparr>qr_token := 7\<rparr>),
      Task_detail 500 501 (post [(''action'', ''generate_checklist''), (''template_id'', ''2''), (''asset_id'', ''1'')]) 1,
      Task_list 500 (post [(''action'', ''create_task''), (''title'', ''Nuovo''), (''site_id'', ''1''), (''asset_id'', ''1'')]),
      Dashboard (post [(''action'', ''start_task''), (''task_id'', ''1'')])] example_db)) =
     [(1, 1001), (2, 1002), (3, 2000)] \<and>
   distinct (map qr_token (assets (run example_lib
     [Admin_add_asset asset_serra 1001, Admin_add_asset asset_serra 2000,
      Admin_change_asset 1 (asset_serra\<lparr>qr_token := 7\<rparr>),
      Task_detail 500 501 (post [(''action'', ''generate_checklist''), (''template_id'', ''2''), (''asset_id'', ''1'')]) 1,
      Task_list 500 (post [(''action'', ''create_task''), (''title'', ''Nuovo''), (''site_id'', ''1''), (''asset_id'', ''1'')]),
      Dashboard (post [(''action'', ''start_task''), (''task_id'', ''1'')])] example_db)))"
proof -
  have d: "distinct (map qr_token (assets example_db))" by code_simp
  have b: "map (\<lambda>a. (asset_id a, qr_token a)) (assets example_db) = [(1, 1001), (2, 1002)]" by code_simp
  have r: "map (\<lambda>a. (asset_id a, qr_token a)) (assets (run example_lib
     [Admin_add_asset asset_serra 1001, Admin_add_asset asset_serra 2000,
      Admin_change_asset 1 (asset_serra\<lparr>qr_token := 7\<rparr>),
      Task_detail 500 501 (post [(''action'', ''generate_checklist''), (''template_id'', ''2''), (''asset_id'', ''1'')]) 1,
      Task_list 500 (post [(''action'', ''create_task''), (''title'', ''Nuovo''), (''site_id'', ''1''), (''asset_id'', ''1'')]),
      Dashboard (post [(''action'', ''start_task''), (''task_id'', ''1'')])] example_db)) =
     [(1, 1001), (2, 1002), (3, 2000)]" by code_simp
  note w = asset_tokens_stable [OF d, THEN conjunct1]
  show ?thesis using d b r w by blast
qed

end
